theory Spec2Isabelle
  imports Main "HOL-Library.Char_ord" "HOL-Library.List_Lexorder" "HOL-Library.Sublist"
begin

section \<open>Python values, as the driver handles them\<close>

text \<open>
  The driver (\<^verbatim>\<open>agent/driver.py\<close>) receives actions decoded from JSON
  (\<^verbatim>\<open>Dict[str, Any]\<close>) and answers with result dictionaries. A value is what
  \<^verbatim>\<open>json.loads\<close> produces, plus the \<^verbatim>\<open>pathlib.Path\<close> objects that
  \<^verbatim>\<open>safe_modify_engine_backtest\<close> is written for. A dictionary is an association
  list in insertion order. Strings are lists of code points below 256, which covers every
  literal of the driver; JSON numbers with a fraction are not modelled.
\<close>

datatype pyval =
    PNone
  | PBool bool
  | PInt int
  | PStr string
  | PList "pyval list"
  | PDict "(string \<times> pyval) list"
  | PPath string

type_synonym pydict = "(string \<times> pyval) list"

text \<open>\<^verbatim>\<open>d.get(key)\<close> and \<^verbatim>\<open>d.get(key, default)\<close>.\<close>

definition dict_get :: "pydict \<Rightarrow> string \<Rightarrow> pyval" where
  "dict_get d k = (case map_of d k of None \<Rightarrow> PNone | Some v \<Rightarrow> v)"

definition dict_get_default :: "pydict \<Rightarrow> string \<Rightarrow> pyval \<Rightarrow> pyval" where
  "dict_get_default d k dflt = (case map_of d k of None \<Rightarrow> dflt | Some v \<Rightarrow> v)"

text \<open>Truth value of an object, as \<^verbatim>\<open>if not path\<close> and \<^verbatim>\<open>a_type or "unknown"\<close> test it.\<close>

fun py_truthy :: "pyval \<Rightarrow> bool" where
  "py_truthy PNone = False"
| "py_truthy (PBool b) = b"
| "py_truthy (PInt i) = (i \<noteq> 0)"
| "py_truthy (PStr s) = (s \<noteq> [])"
| "py_truthy (PList xs) = (xs \<noteq> [])"
| "py_truthy (PDict d) = (d \<noteq> [])"
| "py_truthy (PPath p) = True"

text \<open>\<^verbatim>\<open>type(v).__name__\<close>, as the interpreter's error messages print it.\<close>

fun type_name :: "pyval \<Rightarrow> string" where
  "type_name PNone = ''NoneType''"
| "type_name (PBool b) = ''bool''"
| "type_name (PInt i) = ''int''"
| "type_name (PStr s) = ''str''"
| "type_name (PList xs) = ''list''"
| "type_name (PDict d) = ''dict''"
| "type_name (PPath p) = ''PosixPath''"

subsection \<open>Formatting: \<^verbatim>\<open>str\<close> and \<^verbatim>\<open>repr\<close>\<close>

definition squote :: char where "squote = CHR 0x27"
definition dquote :: char where "dquote = CHR 0x22"
definition backslash :: char where "backslash = CHR 0x5C"

definition hex_digit :: "nat \<Rightarrow> char" where
  "hex_digit n = ''0123456789abcdef'' ! (n mod 16)"

definition dec_digit :: "nat \<Rightarrow> char" where
  "dec_digit n = ''0123456789'' ! (n mod 10)"

fun dec_nat :: "nat \<Rightarrow> string" where
  "dec_nat n = (if n < 10 then [dec_digit n] else dec_nat (n div 10) @ [dec_digit n])"

declare dec_nat.simps [simp del]

definition dec_int :: "int \<Rightarrow> string" where
  "dec_int i = (if i < 0 then CHR ''-'' # dec_nat (nat (- i)) else dec_nat (nat i))"

definition is_printable :: "char \<Rightarrow> bool" where
  "is_printable c =
     (let n = (of_char c :: nat)
      in (32 \<le> n \<and> n < 127) \<or> (161 \<le> n \<and> n \<noteq> 173))"

definition repr_char :: "char \<Rightarrow> char \<Rightarrow> string" where
  "repr_char q c =
     (if c = q \<or> c = backslash then [backslash, c]
      else if c = CHR 0x09 then [backslash, CHR ''t'']
      else if c = CHR 0x0A then [backslash, CHR ''n'']
      else if c = CHR 0x0D then [backslash, CHR ''r'']
      else if is_printable c then [c]
      else [backslash, CHR ''x'', hex_digit (of_char c div 16), hex_digit (of_char c)])"

definition str_repr :: "string \<Rightarrow> string" where
  "str_repr s =
     (let q = (if squote \<in> set s \<and> dquote \<notin> set s then dquote else squote)
      in q # concat (map (repr_char q) s) @ [q])"

fun join_with :: "string \<Rightarrow> string list \<Rightarrow> string" where
  "join_with sep [] = []"
| "join_with sep [x] = x"
| "join_with sep (x # y # ys) = x @ sep @ join_with sep (y # ys)"

fun py_repr :: "pyval \<Rightarrow> string" where
  "py_repr PNone = ''None''"
| "py_repr (PBool b) = (if b then ''True'' else ''False'')"
| "py_repr (PInt i) = dec_int i"
| "py_repr (PStr s) = str_repr s"
| "py_repr (PList xs) = ''['' @ join_with '', '' (map py_repr xs) @ '']''"
| "py_repr (PDict d) =
     ''{'' @ join_with '', '' (map (\<lambda>kv. str_repr (fst kv) @ '': '' @ py_repr (snd kv)) d) @ ''}''"
| "py_repr (PPath p) = ''PosixPath('' @ str_repr p @ '')''"

text \<open>\<^verbatim>\<open>str(v)\<close>, which is also what an f-string field \<^verbatim>\<open>{v}\<close> inserts.\<close>

definition py_str :: "pyval \<Rightarrow> string" where
  "py_str v = (case v of PStr s \<Rightarrow> s | PPath p \<Rightarrow> p | _ \<Rightarrow> py_repr v)"

subsection \<open>String operations the driver uses\<close>

text \<open>\<^verbatim>\<open>str.isspace\<close> on one code point below 256, and \<^verbatim>\<open>str.strip()\<close>.\<close>

definition is_space :: "char \<Rightarrow> bool" where
  "is_space c =
     (let n = (of_char c :: nat)
      in (9 \<le> n \<and> n \<le> 13) \<or> (28 \<le> n \<and> n \<le> 32) \<or> n = 133 \<or> n = 160)"

definition py_strip :: "string \<Rightarrow> string" where
  "py_strip s = rev (dropWhile is_space (rev (dropWhile is_space s)))"

text \<open>
  The newline translation of a file read in text mode (\<^verbatim>\<open>newline=None\<close>, the default
  of \<^verbatim>\<open>open\<close> and of \<^verbatim>\<open>Path.read_text\<close>): CRLF and a lone CR both become LF.
\<close>

fun universal_newlines :: "string \<Rightarrow> string" where
  "universal_newlines [] = []"
| "universal_newlines [c] = [if c = CHR 0x0D then CHR 0x0A else c]"
| "universal_newlines (c # d # ds) =
     (if c = CHR 0x0D \<and> d = CHR 0x0A then CHR 0x0A # universal_newlines ds
      else if c = CHR 0x0D then CHR 0x0A # universal_newlines (d # ds)
      else c # universal_newlines (d # ds))"

text \<open>
  \<^verbatim>\<open>posixpath.dirname\<close>: everything up to the last slash, with trailing slashes
  removed unless the head consists of slashes only.
\<close>

definition posix_dirname :: "string \<Rightarrow> string" where
  "posix_dirname p =
     (let hd_part = rev (dropWhile (\<lambda>c. c \<noteq> CHR ''/'') (rev p))
      in if hd_part \<noteq> [] \<and> \<not> list_all (\<lambda>c. c = CHR ''/'') hd_part
         then rev (dropWhile (\<lambda>c. c = CHR ''/'') (rev hd_part))
         else hd_part)"

text \<open>\<^verbatim>\<open>Path(p) / name\<close> for a relative \<^verbatim>\<open>name\<close>, as a string.\<close>

definition path_join :: "string \<Rightarrow> string \<Rightarrow> string" where
  "path_join p name = (if p \<noteq> [] \<and> last p = CHR ''/'' then p @ name else p @ ''/'' @ name)"

section \<open>The operating system, as far as the driver calls it\<close>

text \<open>
  The driver's effects go through a handful of calls: \<^verbatim>\<open>os.listdir\<close>,
  \<^verbatim>\<open>open\<close>, \<^verbatim>\<open>os.makedirs\<close>, the \<^verbatim>\<open>Path\<close> methods \<^verbatim>\<open>resolve\<close>,
  \<^verbatim>\<open>exists\<close>, \<^verbatim>\<open>read_text\<close>, \<^verbatim>\<open>write_text\<close>,
  \<^verbatim>\<open>subprocess.run\<close> and \<^verbatim>\<open>datetime.utcnow\<close>. The state they act on is a
  \<open>world\<close>: the host (regular files by the path string handed to the call, and the UTC clock)
  and the trace of every filesystem and process call made so far, in order.

  The content of a file is its bytes read as UTF-8, line endings kept as they are on disk: the
  encoding is one-to-one, so two files hold the same bytes exactly when they hold the same
  content here. Reading in text mode is more than decoding: it turns every CRLF and every lone
  CR into LF (\<open>universal_newlines\<close>), and it raises when the bytes are not valid UTF-8, which
  is one of the faults the environment decides. Writing in text mode on a POSIX host stores the
  string as it is.

  What lies outside the repository is a parameter, the environment \<open>env\<close>: the project root
  (\<^verbatim>\<open>ROOT_DIR\<close>), the two capability flags (module constants of the driver), which calls
  raise, what a directory lists, how a path resolves, and what a shell command returns and does
  to the host. Two path strings name two files (links and \<^verbatim>\<open>..\<close> are not interpreted),
  the directory tree is not tracked, and a call that raises has no effect.
\<close>

datatype exn =
    AttributeError string
  | TypeError string
  | ValueError string
  | FileNotFoundError string
  | UnicodeDecodeError string
  | OSError string

text \<open>\<^verbatim>\<open>str(e)\<close>.\<close>

fun exn_str :: "exn \<Rightarrow> string" where
  "exn_str (AttributeError m) = m"
| "exn_str (TypeError m) = m"
| "exn_str (ValueError m) = m"
| "exn_str (FileNotFoundError m) = m"
| "exn_str (UnicodeDecodeError m) = m"
| "exn_str (OSError m) = m"

datatype oscall =
    CallListdir pyval
  | CallOpenRead pyval
  | CallMakedirs string
  | CallOpenWrite pyval
  | CallResolve string
  | CallExists string
  | CallReadText string
  | CallWriteText string
  | CallSpawn string

record datetime =
  dt_year :: nat
  dt_month :: nat
  dt_day :: nat
  dt_hour :: nat
  dt_minute :: nat
  dt_second :: nat

record host =
  files :: "string \<rightharpoonup> string"
  now :: datetime

record world =
  host :: host
  trace :: "oscall list"

text \<open>
  What a shell command comes to: its exit code, its captured output as text, and the exception
  that \<^verbatim>\<open>subprocess.run(..., capture_output=True, text=True)\<close> raises instead of
  returning, if any (output that is not valid text raises \<^verbatim>\<open>UnicodeDecodeError\<close> once
  the process has exited, whatever its exit code).
\<close>

record proc_result =
  stdout :: string
  stderr :: string
  returncode :: int
  raised :: "exn option"

record env =
  root_dir :: string
  allow_run_commands :: bool
  allow_modify_engine :: bool
  os_fault :: "oscall \<Rightarrow> host \<Rightarrow> exn option"
  os_listing :: "pyval \<Rightarrow> host \<Rightarrow> string list"
  os_fd_read :: "int \<Rightarrow> host \<Rightarrow> string"
  os_realpath :: "string \<Rightarrow> host \<Rightarrow> string"
  os_shell :: "string \<Rightarrow> host \<Rightarrow> proc_result \<times> host"

text \<open>A call either raises (left) or returns (right); both carry the world it leaves.\<close>

type_synonym 'a outcome = "(exn \<times> world) + ('a \<times> world)"

definition log_call :: "oscall \<Rightarrow> world \<Rightarrow> world" where
  "log_call c w = w\<lparr>trace := trace w @ [c]\<rparr>"

definition set_file :: "string \<Rightarrow> string \<Rightarrow> world \<Rightarrow> world" where
  "set_file p c w = w\<lparr>host := (host w)\<lparr>files := (files (host w))(p \<mapsto> c)\<rparr>\<rparr>"

definition attribute_error :: "pyval \<Rightarrow> string \<Rightarrow> exn" where
  "attribute_error v attr =
     AttributeError ([squote] @ type_name v @ [squote] @ '' object has no attribute ''
                     @ [squote] @ attr @ [squote])"

definition no_such_file :: "string \<Rightarrow> exn" where
  "no_such_file p = FileNotFoundError (''[Errno 2] No such file or directory: '' @ str_repr p)"

text \<open>
  What \<^verbatim>\<open>open\<close> accepts as its first argument: a path (string or path object), a file
  descriptor (an integer; \<^verbatim>\<open>bool\<close> is a subclass of \<^verbatim>\<open>int\<close>), or a type error.
\<close>

definition not_pathlike :: "pyval \<Rightarrow> exn" where
  "not_pathlike v = TypeError (''expected str, bytes or os.PathLike object, not '' @ type_name v)"

fun path_arg :: "pyval \<Rightarrow> exn + (string + int)" where
  "path_arg (PStr s) = Inr (Inl s)"
| "path_arg (PPath s) = Inr (Inl s)"
| "path_arg (PInt i) = Inr (Inr i)"
| "path_arg (PBool b) = Inr (Inr (if b then 1 else 0))"
| "path_arg v = Inl (not_pathlike v)"

text \<open>\<^verbatim>\<open>os.path.dirname(path)\<close>: a string operation; no file descriptors here.\<close>

fun py_dirname :: "pyval \<Rightarrow> exn + string" where
  "py_dirname (PStr s) = Inr (posix_dirname s)"
| "py_dirname (PPath s) = Inr (posix_dirname s)"
| "py_dirname v = Inl (not_pathlike v)"

text \<open>\<^verbatim>\<open>os.listdir(path)\<close>.\<close>

definition os_listdir :: "env \<Rightarrow> pyval \<Rightarrow> world \<Rightarrow> string list outcome" where
  "os_listdir E p w =
     (case p of
        PList xs \<Rightarrow> Inl (TypeError (''listdir: path should be string, bytes, os.PathLike, integer or None, not list''), w)
      | PDict d \<Rightarrow> Inl (TypeError (''listdir: path should be string, bytes, os.PathLike, integer or None, not dict''), w)
      | _ \<Rightarrow>
         (case os_fault E (CallListdir p) (host w) of
            Some e \<Rightarrow> Inl (e, log_call (CallListdir p) w)
          | None \<Rightarrow> Inr (os_listing E p (host w), log_call (CallListdir p) w)))"

text \<open>\<^verbatim>\<open>with open(path, "r", encoding="utf-8") as f: content = f.read()\<close>.\<close>

definition open_read :: "env \<Rightarrow> pyval \<Rightarrow> world \<Rightarrow> string outcome" where
  "open_read E p w =
     (case path_arg p of
        Inl e \<Rightarrow> Inl (e, w)
      | Inr tgt \<Rightarrow>
         (case os_fault E (CallOpenRead p) (host w) of
            Some e \<Rightarrow> Inl (e, log_call (CallOpenRead p) w)
          | None \<Rightarrow>
             (case tgt of
                Inl s \<Rightarrow>
                  (case files (host w) s of
                     None \<Rightarrow> Inl (no_such_file s, log_call (CallOpenRead p) w)
                   | Some c \<Rightarrow> Inr (universal_newlines c, log_call (CallOpenRead p) w))
              | Inr fd \<Rightarrow> Inr (os_fd_read E fd (host w), log_call (CallOpenRead p) w))))"

text \<open>
  \<^verbatim>\<open>os.makedirs(d, exist_ok=True)\<close>. On the empty string it raises
  \<^verbatim>\<open>FileNotFoundError\<close> on every host: \<^verbatim>\<open>mkdir('')\<close> fails, and
  \<^verbatim>\<open>exist_ok\<close> excuses only a directory that exists.
\<close>

definition os_makedirs :: "env \<Rightarrow> string \<Rightarrow> world \<Rightarrow> unit outcome" where
  "os_makedirs E d w =
     (if d = [] then Inl (no_such_file d, log_call (CallMakedirs d) w)
      else
        (case os_fault E (CallMakedirs d) (host w) of
           Some e \<Rightarrow> Inl (e, log_call (CallMakedirs d) w)
         | None \<Rightarrow> Inr ((), log_call (CallMakedirs d) w)))"

text \<open>
  \<^verbatim>\<open>with open(path, "w", encoding="utf-8") as f: f.write(content)\<close>. Opening truncates
  the file; \<^verbatim>\<open>f.write\<close> then raises on anything that is not a string (its message
  prints \<^verbatim>\<open>None\<close> for the type of \<^verbatim>\<open>None\<close>).
\<close>

definition open_write :: "env \<Rightarrow> pyval \<Rightarrow> pyval \<Rightarrow> world \<Rightarrow> unit outcome" where
  "open_write E p content w =
     (case path_arg p of
        Inl e \<Rightarrow> Inl (e, w)
      | Inr tgt \<Rightarrow>
         (case os_fault E (CallOpenWrite p) (host w) of
            Some e \<Rightarrow> Inl (e, log_call (CallOpenWrite p) w)
          | None \<Rightarrow>
             (case content of
                PStr c \<Rightarrow>
                  Inr ((), case tgt of Inl s \<Rightarrow> set_file s c (log_call (CallOpenWrite p) w)
                                     | Inr fd \<Rightarrow> log_call (CallOpenWrite p) w)
              | _ \<Rightarrow>
                  Inl (TypeError (''write() argument must be str, not ''
                                  @ (if content = PNone then ''None'' else type_name content)),
                       case tgt of Inl s \<Rightarrow> set_file s [] (log_call (CallOpenWrite p) w)
                                 | Inr fd \<Rightarrow> log_call (CallOpenWrite p) w))))"

subsection \<open>The \<^verbatim>\<open>Path\<close> methods\<close>

definition path_resolve :: "env \<Rightarrow> string \<Rightarrow> world \<Rightarrow> string \<times> world" where
  "path_resolve E p w = (os_realpath E p (host w), log_call (CallResolve p) w)"

text \<open>\<^verbatim>\<open>path.resolve()\<close> on whatever object \<^verbatim>\<open>path\<close> is.\<close>

definition py_resolve :: "env \<Rightarrow> pyval \<Rightarrow> world \<Rightarrow> string outcome" where
  "py_resolve E v w =
     (case v of PPath p \<Rightarrow> Inr (path_resolve E p w)
              | _ \<Rightarrow> Inl (attribute_error v ''resolve'', w))"

definition path_exists :: "env \<Rightarrow> string \<Rightarrow> world \<Rightarrow> bool outcome" where
  "path_exists E p w =
     (case os_fault E (CallExists p) (host w) of
        Some e \<Rightarrow> Inl (e, log_call (CallExists p) w)
      | None \<Rightarrow> Inr (files (host w) p \<noteq> None, log_call (CallExists p) w))"

definition read_text :: "env \<Rightarrow> string \<Rightarrow> world \<Rightarrow> string outcome" where
  "read_text E p w =
     (case os_fault E (CallReadText p) (host w) of
        Some e \<Rightarrow> Inl (e, log_call (CallReadText p) w)
      | None \<Rightarrow>
         (case files (host w) p of
            None \<Rightarrow> Inl (no_such_file p, log_call (CallReadText p) w)
          | Some c \<Rightarrow> Inr (universal_newlines c, log_call (CallReadText p) w)))"

definition write_text :: "env \<Rightarrow> string \<Rightarrow> pyval \<Rightarrow> world \<Rightarrow> unit outcome" where
  "write_text E p data w =
     (case data of
        PStr c \<Rightarrow>
          (case os_fault E (CallWriteText p) (host w) of
             Some e \<Rightarrow> Inl (e, log_call (CallWriteText p) w)
           | None \<Rightarrow> Inr ((), set_file p c (log_call (CallWriteText p) w)))
      | _ \<Rightarrow> Inl (TypeError (''data must be str, not '' @ type_name data), w))"

subsection \<open>The clock\<close>

definition pad2 :: "nat \<Rightarrow> string" where
  "pad2 n = (if n < 10 then CHR ''0'' # dec_nat n else dec_nat n)"

text \<open>\<^verbatim>\<open>datetime.utcnow().strftime("%Y%m%d_%H%M%S")\<close>, for a year of four digits.\<close>

definition strftime_stamp :: "datetime \<Rightarrow> string" where
  "strftime_stamp t =
     dec_nat (dt_year t) @ pad2 (dt_month t) @ pad2 (dt_day t) @ ''_''
     @ pad2 (dt_hour t) @ pad2 (dt_minute t) @ pad2 (dt_second t)"

section \<open>The driver\<close>

subsection \<open>\<^verbatim>\<open>run_command\<close>\<close>

definition proc_dict :: "proc_result \<Rightarrow> pydict" where
  "proc_dict r =
     [(''stdout'', PStr (stdout r)), (''stderr'', PStr (stderr r)),
      (''returncode'', PInt (returncode r))]"

text \<open>
  \<^verbatim>\<open>def run_command(command: str)\<close>: runs the command in a shell at the project root
  and returns its captured output and exit code. The subprocess may change the host; when
  \<^verbatim>\<open>subprocess.run\<close> raises, the exception leaves \<^verbatim>\<open>run_command\<close> with the host as
  the subprocess left it.
\<close>

definition run_command :: "env \<Rightarrow> string \<Rightarrow> world \<Rightarrow> pydict outcome" where
  "run_command E command w =
     (case raised (fst (os_shell E command (host w))) of
        Some e \<Rightarrow>
          Inl (e, (log_call (CallSpawn command) w)\<lparr>host := snd (os_shell E command (host w))\<rparr>)
      | None \<Rightarrow>
          Inr (proc_dict (fst (os_shell E command (host w))),
               (log_call (CallSpawn command) w)\<lparr>host := snd (os_shell E command (host w))\<rparr>))"

text \<open>
  A call \<^verbatim>\<open>run_command(command, k1=v1, ...)\<close> with one positional argument and the given
  keyword arguments: the function has the single parameter \<^verbatim>\<open>command\<close>, so any keyword
  makes the interpreter raise \<^verbatim>\<open>TypeError\<close> before the body runs.
\<close>

definition call_run_command :: "env \<Rightarrow> string \<Rightarrow> pydict \<Rightarrow> world \<Rightarrow> pydict outcome" where
  "call_run_command E command kwargs w =
     (case kwargs of
        [] \<Rightarrow> run_command E command w
      | kw # others \<Rightarrow>
          if fst kw = ''command''
          then Inl (TypeError (''run_command() got multiple values for argument ''
                               @ [squote] @ fst kw @ [squote]), w)
          else Inl (TypeError (''run_command() got an unexpected keyword argument ''
                               @ [squote] @ fst kw @ [squote]), w))"

subsection \<open>\<^verbatim>\<open>safe_modify_engine_backtest\<close>\<close>

definition c_cedilla :: char where "c_cedilla = CHR 0xE7"
definition a_tilde :: char where "a_tilde = CHR 0xE3"
definition e_acute :: char where "e_acute = CHR 0xE9"
definition o_acute :: char where "o_acute = CHR 0xF3"

definition engine_file :: "env \<Rightarrow> string" where
  "engine_file E = path_join (path_join (root_dir E) ''engine'') ''backtest.py''"

definition backup_file :: "env \<Rightarrow> string \<Rightarrow> string" where
  "backup_file E ts =
     path_join (path_join (root_dir E) ''engine'') (''backtest_backup_'' @ ts @ ''.py'')"

definition compile_cmd :: string where
  "compile_cmd = ''python -m py_compile engine/backtest.py''"

definition smoke_cmd :: string where
  "smoke_cmd = ''python engine/backtest.py strategies/example_ma_crossover.py''"

definition msg_not_engine_file :: string where
  "msg_not_engine_file =
     ''safe_modify_engine_backtest chamado para arquivo que n'' @ [a_tilde] @ ''o ''
     @ [e_acute] @ '' engine/backtest.py.''"

definition msg_engine_missing :: string where
  "msg_engine_missing =
     ''engine/backtest.py n'' @ [a_tilde] @ ''o encontrado para modifica''
     @ [c_cedilla, a_tilde] @ ''o segura.''"

definition msg_compile_failed :: string where
  "msg_compile_failed =
     ''Falha na compila'' @ [c_cedilla, a_tilde] @ ''o de engine/backtest.py; restaura''
     @ [c_cedilla, a_tilde] @ ''o do original.''"

definition msg_smoke_failed :: string where
  "msg_smoke_failed =
     ''Backtest de fuma'' @ [c_cedilla] @ ''a falhou; restaura''
     @ [c_cedilla, a_tilde] @ ''o do original.''"

text \<open>
  The guard of the protected file. Its steps, in the source's order: resolve and compare the
  two paths; test that the protected file exists; read it; write the backup, named by the UTC
  second; write the proposed content; run the compile check; run the smoke test; after a check
  that exits nonzero, write the original back. No step is inside a \<^verbatim>\<open>try\<close>: an
  exception of any call leaves the function.
\<close>

definition safe_modify_engine_backtest :: "env \<Rightarrow> pyval \<Rightarrow> pyval \<Rightarrow> world \<Rightarrow> pydict outcome" where
  "safe_modify_engine_backtest E path new_content w =
     (case py_resolve E path w of
        Inl x \<Rightarrow> Inl x
      | Inr (resolved, w1) \<Rightarrow>
     (case path_resolve E (engine_file E) w1 of (engine_resolved, w2) \<Rightarrow>
        if resolved \<noteq> engine_resolved then
          Inr ([(''type'', PStr ''write_file''), (''path'', PStr (py_str path)),
                (''status'', PStr ''blocked''), (''error'', PStr msg_not_engine_file)], w2)
        else
     (case path_exists E (engine_file E) w2 of
        Inl x \<Rightarrow> Inl x
      | Inr (present, w3) \<Rightarrow>
        if \<not> present then
          Inr ([(''type'', PStr ''write_file''), (''path'', PStr (engine_file E)),
                (''status'', PStr ''blocked''), (''error'', PStr msg_engine_missing)], w3)
        else
     (case read_text E (engine_file E) w3 of
        Inl x \<Rightarrow> Inl x
      | Inr (original_content, w4) \<Rightarrow>
     (case write_text E (backup_file E (strftime_stamp (now (host w4)))) (PStr original_content) w4 of
        Inl x \<Rightarrow> Inl x
      | Inr (u5, w5) \<Rightarrow>
     (case write_text E (engine_file E) new_content w5 of
        Inl x \<Rightarrow> Inl x
      | Inr (u6, w6) \<Rightarrow>
     (case run_command E compile_cmd w6 of
        Inl x \<Rightarrow> Inl x
      | Inr (compile_result, w7) \<Rightarrow>
        if dict_get compile_result ''returncode'' \<noteq> PInt 0 then
          (case write_text E (engine_file E) (PStr original_content) w7 of
             Inl x \<Rightarrow> Inl x
           | Inr (u8, w8) \<Rightarrow>
               Inr ([(''type'', PStr ''write_file''), (''path'', PStr (engine_file E)),
                     (''status'', PStr ''reverted''), (''stage'', PStr ''compile''),
                     (''error'', PStr msg_compile_failed),
                     (''backup_path'', PStr (backup_file E (strftime_stamp (now (host w4))))),
                     (''compile_result'', PDict compile_result)], w8))
        else
     (case run_command E smoke_cmd w7 of
        Inl x \<Rightarrow> Inl x
      | Inr (smoke_result, w8) \<Rightarrow>
        if dict_get smoke_result ''returncode'' \<noteq> PInt 0 then
          (case write_text E (engine_file E) (PStr original_content) w8 of
             Inl x \<Rightarrow> Inl x
           | Inr (u9, w9) \<Rightarrow>
               Inr ([(''type'', PStr ''write_file''), (''path'', PStr (engine_file E)),
                     (''status'', PStr ''reverted''), (''stage'', PStr ''smoke_test''),
                     (''error'', PStr msg_smoke_failed),
                     (''backup_path'', PStr (backup_file E (strftime_stamp (now (host w4))))),
                     (''smoke_result'', PDict smoke_result)], w9))
        else
          Inr ([(''type'', PStr ''write_file''), (''path'', PStr (engine_file E)),
                (''status'', PStr ''ok''),
                (''backup_path'', PStr (backup_file E (strftime_stamp (now (host w4))))),
                (''compile_result'', PDict compile_result),
                (''smoke_result'', PDict smoke_result)], w8)))))))))"

subsection \<open>\<^verbatim>\<open>execute_actions\<close>\<close>

text \<open>
  The body of the loop is one chain of \<^verbatim>\<open>if a_type == ...\<close> blocks, each ending in
  \<^verbatim>\<open>continue\<close>. Each block is a handler here, in the source's order; \<open>dispatch\<close> is
  the chain. A handler returns the dictionary it appends to \<^verbatim>\<open>results\<close>, or raises when
  the source has no \<^verbatim>\<open>try\<close> around the failing call.
\<close>

definition handle_list_dir :: "env \<Rightarrow> pydict \<Rightarrow> world \<Rightarrow> pydict outcome" where
  "handle_list_dir E action w =
     (case os_listdir E (dict_get_default action ''path'' (PStr ''.'')) w of
        Inr (items, w1) \<Rightarrow>
          Inr ([(''type'', PStr ''list_dir''),
                (''path'', dict_get_default action ''path'' (PStr ''.'')),
                (''items'', PList (map PStr (sort items)))], w1)
      | Inl (e, w1) \<Rightarrow>
          Inr ([(''type'', PStr ''list_dir''),
                (''path'', dict_get_default action ''path'' (PStr ''.'')),
                (''error'', PStr (exn_str e))], w1))"

definition handle_read_file :: "env \<Rightarrow> pydict \<Rightarrow> world \<Rightarrow> pydict outcome" where
  "handle_read_file E action w =
     (if \<not> py_truthy (dict_get action ''path'') then
        Inr ([(''type'', PStr ''read_file''), (''error'', PStr ''missing path'')], w)
      else
        (case open_read E (dict_get action ''path'') w of
           Inr (content, w1) \<Rightarrow>
             Inr ([(''type'', PStr ''read_file''), (''path'', dict_get action ''path''),
                   (''content'', PStr content)], w1)
         | Inl (e, w1) \<Rightarrow>
             Inr ([(''type'', PStr ''read_file''), (''path'', dict_get action ''path''),
                   (''error'', PStr (exn_str e))], w1)))"

definition write_file_error :: "pydict \<Rightarrow> exn \<Rightarrow> pydict" where
  "write_file_error action e =
     [(''type'', PStr ''write_file''), (''path'', dict_get action ''path''),
      (''error'', PStr (exn_str e))]"

definition handle_write_file :: "env \<Rightarrow> pydict \<Rightarrow> world \<Rightarrow> pydict outcome" where
  "handle_write_file E action w =
     (if \<not> py_truthy (dict_get action ''path'') then
        Inr ([(''type'', PStr ''write_file''), (''error'', PStr ''missing path'')], w)
      else
        (case py_dirname (dict_get action ''path'') of
           Inl e \<Rightarrow> Inr (write_file_error action e, w)
         | Inr d \<Rightarrow>
        (case os_makedirs E d w of
           Inl (e, w1) \<Rightarrow> Inr (write_file_error action e, w1)
         | Inr (u1, w1) \<Rightarrow>
        (case open_write E (dict_get action ''path'')
                (dict_get_default action ''content'' (PStr [])) w1 of
           Inl (e, w2) \<Rightarrow> Inr (write_file_error action e, w2)
         | Inr (u2, w2) \<Rightarrow>
             Inr ([(''type'', PStr ''write_file''), (''path'', dict_get action ''path''),
                   (''status'', PStr ''ok'')], w2)))))"

text \<open>
  \<^verbatim>\<open>ok, msg = d\<close> with a dictionary on the right: the iteration yields the keys, and
  there must be exactly two.
\<close>

definition unpack_pair :: "pydict \<Rightarrow> exn + (pyval \<times> pyval)" where
  "unpack_pair d =
     (if length d = 2 then Inr (PStr (fst (d ! 0)), PStr (fst (d ! 1)))
      else if length d > 2 then Inl (ValueError ''too many values to unpack (expected 2)'')
      else Inl (ValueError (''not enough values to unpack (expected 2, got ''
                            @ dec_nat (length d) @ '')'')))"

definition modify_engine_error :: "pydict \<Rightarrow> exn \<Rightarrow> pydict" where
  "modify_engine_error action e =
     [(''type'', PStr ''modify_engine''), (''path'', dict_get action ''path''),
      (''status'', PStr ''error''), (''message'', PStr (exn_str e))]"

definition handle_modify_engine :: "env \<Rightarrow> pydict \<Rightarrow> world \<Rightarrow> pydict outcome" where
  "handle_modify_engine E action w =
     (if \<not> allow_modify_engine E then
        Inr ([(''type'', PStr ''modify_engine''), (''status'', PStr ''blocked''),
              (''reason'', PStr ''ALLOW_MODIFY_ENGINE=False no driver.py'')], w)
      else
        (case safe_modify_engine_backtest E (dict_get action ''path'')
                (dict_get_default action ''content'' (PStr [])) w of
           Inl (e, w1) \<Rightarrow> Inr (modify_engine_error action e, w1)
         | Inr (d, w1) \<Rightarrow>
             (case unpack_pair d of
                Inl e \<Rightarrow> Inr (modify_engine_error action e, w1)
              | Inr (ok, msg) \<Rightarrow>
                  Inr ([(''type'', PStr ''modify_engine''), (''path'', dict_get action ''path''),
                        (''status'', PStr (if py_truthy ok then ''ok'' else ''error'')),
                        (''message'', msg)], w1))))"

definition allowed_prefixes :: "string list" where
  "allowed_prefixes =
     [''python engine/fetch_data.py'',
      ''python engine/backtest.py'',
      ''python engine/analyze_runs.py'',
      ''python engine/plot_strategy.py'',
      ''python engine/optimize_params.py'',
      ''pip install -r requirements.txt'']"

text \<open>
  The message of a blocked command. The source writes \<^verbatim>\<open>\\n\<close> in plain (not raw, not
  f-) literals, so each line ends in a backslash and the letter n, not in a newline.
\<close>

definition msg_blocked_command :: "string \<Rightarrow> string" where
  "msg_blocked_command command =
     ''Comando bloqueado. O driver s'' @ [o_acute] @ '' permite atualmente:'' @ [backslash, CHR ''n'']
     @ ''- python engine/fetch_data.py ...'' @ [backslash, CHR ''n'']
     @ ''- python engine/backtest.py ...'' @ [backslash, CHR ''n'']
     @ ''- python engine/analyze_runs.py ...'' @ [backslash, CHR ''n'']
     @ ''- python engine/plot_strategy.py ...'' @ [backslash, CHR ''n'']
     @ ''- python engine/optimize_params.py ...'' @ [backslash, CHR ''n'']
     @ ''- pip install -r requirements.txt'' @ [backslash, CHR ''n'']
     @ ''Comando solicitado: '' @ command"

definition msg_commands_disabled :: string where
  "msg_commands_disabled =
     ''Execu'' @ [c_cedilla, a_tilde] @ ''o de comandos desativada (ALLOW_RUN_COMMANDS=False).''"

text \<open>
  The \<^verbatim>\<open>run_command\<close> block has no \<^verbatim>\<open>try\<close>. \<^verbatim>\<open>.strip()\<close> is called on
  whatever the \<^verbatim>\<open>command\<close> field holds, and the allowed command is run by the call
  \<^verbatim>\<open>run_command(command, cwd=str(ROOT_DIR))\<close>.
\<close>

definition handle_run_command :: "env \<Rightarrow> pydict \<Rightarrow> world \<Rightarrow> pydict outcome" where
  "handle_run_command E action w =
     (case dict_get_default action ''command'' (PStr []) of
        PStr s \<Rightarrow>
          if py_strip s = [] then
            Inr ([(''type'', PStr ''run_command''), (''status'', PStr ''error''),
                  (''error'', PStr ''empty command'')], w)
          else if \<not> allow_run_commands E then
            Inr ([(''type'', PStr ''run_command''), (''command'', PStr (py_strip s)),
                  (''status'', PStr ''blocked''), (''error'', PStr msg_commands_disabled)], w)
          else if \<not> list_ex (\<lambda>p. prefix p (py_strip s)) allowed_prefixes then
            Inr ([(''type'', PStr ''run_command''), (''command'', PStr (py_strip s)),
                  (''status'', PStr ''blocked''),
                  (''error'', PStr (msg_blocked_command (py_strip s)))], w)
          else
            (case call_run_command E (py_strip s) [(''cwd'', PStr (root_dir E))] w of
               Inl x \<Rightarrow> Inl x
             | Inr (result, w1) \<Rightarrow>
                 Inr ([(''type'', PStr ''run_command''), (''command'', PStr (py_strip s)),
                       (''status'', PStr (if dict_get result ''returncode'' = PInt 0
                                          then ''ok'' else ''error'')),
                       (''returncode'', dict_get result ''returncode''),
                       (''stdout'', dict_get result ''stdout''),
                       (''stderr'', dict_get result ''stderr'')], w1))
      | v \<Rightarrow> Inl (attribute_error v ''strip'', w))"

definition msg_unknown_action :: "pyval \<Rightarrow> string" where
  "msg_unknown_action a_type =
     ''A'' @ [c_cedilla, a_tilde] @ ''o desconhecida: '' @ py_str a_type"

definition handle_unknown :: "pydict \<Rightarrow> world \<Rightarrow> pydict outcome" where
  "handle_unknown action w =
     Inr ([(''type'', if py_truthy (dict_get action ''type'') then dict_get action ''type''
                      else PStr ''unknown''),
           (''status'', PStr ''error''),
           (''error'', PStr (msg_unknown_action (dict_get action ''type''))),
           (''raw_action'', PDict action)], w)"

definition dispatch :: "env \<Rightarrow> pydict \<Rightarrow> world \<Rightarrow> pydict outcome" where
  "dispatch E action w =
     (if dict_get action ''type'' = PStr ''list_dir'' then handle_list_dir E action w
      else if dict_get action ''type'' = PStr ''read_file'' then handle_read_file E action w
      else if dict_get action ''type'' = PStr ''write_file'' then handle_write_file E action w
      else if dict_get action ''type'' = PStr ''modify_engine'' then handle_modify_engine E action w
      else if dict_get action ''type'' = PStr ''run_command'' then handle_run_command E action w
      else handle_unknown action w)"

text \<open>
  The loop \<^verbatim>\<open>for action in actions\<close>: results are appended in order; an exception that
  leaves a handler leaves the loop and the function.
\<close>

fun dispatch_all :: "env \<Rightarrow> pydict list \<Rightarrow> world \<Rightarrow> pydict list outcome" where
  "dispatch_all E [] w = Inr ([], w)"
| "dispatch_all E (action # rest) w =
     (case dispatch E action w of
        Inl x \<Rightarrow> Inl x
      | Inr (r, w1) \<Rightarrow>
          (case dispatch_all E rest w1 of
             Inl x \<Rightarrow> Inl x
           | Inr (rs, w2) \<Rightarrow> Inr (r # rs, w2)))"

text \<open>\<^verbatim>\<open>return {"results": results}\<close>.\<close>

definition execute_actions :: "env \<Rightarrow> pydict list \<Rightarrow> world \<Rightarrow> pydict outcome" where
  "execute_actions E actions w =
     (case dispatch_all E actions w of
        Inl x \<Rightarrow> Inl x
      | Inr (rs, w1) \<Rightarrow> Inr ([(''results'', PList (map PDict rs))], w1))"

section \<open>Auxiliary notions for the statements\<close>

text \<open>
  The hosts the guard passes through, as functions of the host it starts on and of the text
  it reads from the protected file: after the backup is written under the name of the current
  second; after the proposed content is written over the protected file; and the two check
  commands run from there, the smoke test on the host the compile check leaves.
\<close>

definition backed_up_host :: "env \<Rightarrow> string \<Rightarrow> host \<Rightarrow> host" where
  "backed_up_host E text_read h =
     h\<lparr>files := (files h)(backup_file E (strftime_stamp (now h)) \<mapsto> text_read)\<rparr>"

definition written_host :: "env \<Rightarrow> string \<Rightarrow> string \<Rightarrow> host \<Rightarrow> host" where
  "written_host E text_read proposed h =
     h\<lparr>files := (files h)(backup_file E (strftime_stamp (now h)) \<mapsto> text_read,
                          engine_file E \<mapsto> proposed)\<rparr>"

definition compile_run :: "env \<Rightarrow> string \<Rightarrow> string \<Rightarrow> host \<Rightarrow> proc_result \<times> host" where
  "compile_run E text_read proposed h =
     os_shell E compile_cmd (written_host E text_read proposed h)"

definition smoke_run :: "env \<Rightarrow> string \<Rightarrow> string \<Rightarrow> host \<Rightarrow> proc_result \<times> host" where
  "smoke_run E text_read proposed h =
     os_shell E smoke_cmd (snd (compile_run E text_read proposed h))"

text \<open>
  The guard's four filesystem calls before the checks return: the existence test, the read, the
  write of the backup, and the write of the proposed content.
\<close>

definition setup_returns :: "env \<Rightarrow> string \<Rightarrow> host \<Rightarrow> bool" where
  "setup_returns E text_read h =
     (os_fault E (CallExists (engine_file E)) h = None
      \<and> os_fault E (CallReadText (engine_file E)) h = None
      \<and> os_fault E (CallWriteText (backup_file E (strftime_stamp (now h)))) h = None
      \<and> os_fault E (CallWriteText (engine_file E)) (backed_up_host E text_read h) = None)"

text \<open>
  A frame condition on one run of a command: run on host \<open>h\<close>, the command leaves the file
  \<open>f\<close> as it found it. The checks are external programs (the smoke test runs the proposed
  content itself), so what they leave alone is an assumption, never a property of the driver.
\<close>

definition run_keeps :: "env \<Rightarrow> string \<Rightarrow> host \<Rightarrow> string \<Rightarrow> bool" where
  "run_keeps E command h f = (files (snd (os_shell E command h)) f = files h f)"

text \<open>The filesystem calls of the guard up to and including the write of the proposed content.\<close>

definition guard_trace :: "env \<Rightarrow> string \<Rightarrow> world \<Rightarrow> oscall list" where
  "guard_trace E p w =
     trace w @ [CallResolve p, CallResolve (engine_file E), CallExists (engine_file E),
                CallReadText (engine_file E),
                CallWriteText (backup_file E (strftime_stamp (now (host w)))),
                CallWriteText (engine_file E)]"

subsection \<open>A small project tree for worked examples\<close>

text \<open>
  The project lives in \<^verbatim>\<open>/repo\<close>; the protected file holds \<^verbatim>\<open>def f(): return 1\<close>.
  The shell answers as the two check commands do: the compile check exits 1 on the content
  \<^verbatim>\<open>x = = 1\<close>, with the compiler's report of the syntax error, and otherwise exits 0 and
  leaves the compiled file in \<^verbatim>\<open>__pycache__\<close>; the smoke test, which runs the protected
  file, exits 1 on the content \<^verbatim>\<open>raise SystemExit(1)\<close> and 0 otherwise. Both flags are set
  as the module sets them, and no filesystem call raises.
\<close>

definition syntax_error_report :: string where
  "syntax_error_report =
     ''  File '' @ [dquote] @ ''engine/backtest.py'' @ [dquote] @ '', line 1'' @ [CHR 0x0A]
     @ ''    x = = 1'' @ [CHR 0x0A]
     @ ''        ^'' @ [CHR 0x0A]
     @ ''SyntaxError: invalid syntax'' @ [CHR 0x0A]"

definition demo_host :: host where
  "demo_host =
     \<lparr>files = [''/repo/engine/backtest.py'' \<mapsto> ''def f(): return 1''],
      now = \<lparr>dt_year = 2024, dt_month = 3, dt_day = 9,
             dt_hour = 14, dt_minute = 5, dt_second = 0\<rparr>\<rparr>"

definition demo_world :: world where
  "demo_world = \<lparr>host = demo_host, trace = []\<rparr>"

definition demo_shell :: "string \<Rightarrow> host \<Rightarrow> proc_result \<times> host" where
  "demo_shell command h =
     (if command = compile_cmd then
        (if files h ''/repo/engine/backtest.py'' = Some ''x = = 1''
         then (\<lparr>stdout = [], stderr = syntax_error_report, returncode = 1,
                raised = None\<rparr>, h)
         else (\<lparr>stdout = [], stderr = [], returncode = 0, raised = None\<rparr>,
               h\<lparr>files := (files h)(''/repo/engine/__pycache__/backtest.cpython-312.pyc''
                                      \<mapsto> ''(bytecode)'')\<rparr>))
      else if command = smoke_cmd then
        (if files h ''/repo/engine/backtest.py'' = Some ''raise SystemExit(1)''
         then \<lparr>stdout = [], stderr = [], returncode = 1, raised = None\<rparr>
         else \<lparr>stdout = [], stderr = [], returncode = 0, raised = None\<rparr>, h)
      else (\<lparr>stdout = [], stderr = [], returncode = 0, raised = None\<rparr>, h))"

definition demo_env :: env where
  "demo_env =
     \<lparr>root_dir = ''/repo'', allow_run_commands = True, allow_modify_engine = True,
      os_fault = (\<lambda>c h. None),
      os_listing = (\<lambda>p h. [''strategies'', ''engine'', ''README.md'', ''agent'']),
      os_fd_read = (\<lambda>fd h. []),
      os_realpath = (\<lambda>p h. p),
      os_shell = demo_shell\<rparr>"

text \<open>The example project before the protected file exists.\<close>

definition bare_world :: world where
  "bare_world = \<lparr>host = demo_host\<lparr>files := Map.empty\<rparr>, trace = []\<rparr>"

text \<open>The example project with the protected file stored with CRLF line endings.\<close>

definition crlf_world :: world where
  "crlf_world =
     \<lparr>host = demo_host\<lparr>files := [''/repo/engine/backtest.py''
                                   \<mapsto> ''def f(): return 1'' @ [CHR 0x0D, CHR 0x0A]]\<rparr>,
      trace = []\<rparr>"

text \<open>
  Four more contents the guard can be handed, and what the smoke test does when it runs them.
  All four compile. The first two write the byte \<^verbatim>\<open>0xff\<close> to standard output, which is not
  valid text: \<^verbatim>\<open>subprocess.run\<close> raises \<^verbatim>\<open>UnicodeDecodeError\<close> once the process has
  exited, with code 1 for the first and 0 for the second. The third deletes the file it is run
  from and exits 0. The fourth deletes every file that matches
  \<^verbatim>\<open>engine/backtest_backup_*.py\<close> and exits 1.
\<close>

definition noisy_failing_script :: string where
  "noisy_failing_script = ''import sys; sys.stdout.buffer.write(bytes([255])); sys.exit(1)''"

definition noisy_script :: string where
  "noisy_script = ''import sys; sys.stdout.buffer.write(bytes([255]))''"

definition self_removing_script :: string where
  "self_removing_script = ''import os; os.remove(__file__)''"

definition backup_wiping_script :: string where
  "backup_wiping_script =
     ''import glob, os, sys; [os.remove(b) for b in glob.glob('engine/backtest_backup_*.py')]; sys.exit(1)''"

definition undecodable_output :: exn where
  "undecodable_output =
     UnicodeDecodeError
       (squote # ''utf-8' codec can't decode byte 0xff in position 0: invalid start byte'')"

definition is_backup_name :: "string \<Rightarrow> bool" where
  "is_backup_name f =
     (prefix ''/repo/engine/backtest_backup_'' f
      \<and> suffix ''.py'' (drop (length ''/repo/engine/backtest_backup_'') f)
      \<and> CHR ''/'' \<notin> set (drop (length ''/repo/engine/backtest_backup_'') f))"

definition script_shell :: "string \<Rightarrow> host \<Rightarrow> proc_result \<times> host" where
  "script_shell command h =
     (if command = smoke_cmd
         \<and> files h ''/repo/engine/backtest.py'' = Some noisy_failing_script then
        (\<lparr>stdout = [], stderr = [], returncode = 1, raised = Some undecodable_output\<rparr>, h)
      else if command = smoke_cmd
         \<and> files h ''/repo/engine/backtest.py'' = Some noisy_script then
        (\<lparr>stdout = [], stderr = [], returncode = 0, raised = Some undecodable_output\<rparr>, h)
      else if command = smoke_cmd
         \<and> files h ''/repo/engine/backtest.py'' = Some self_removing_script then
        (\<lparr>stdout = [], stderr = [], returncode = 0, raised = None\<rparr>,
         h\<lparr>files := (files h)(''/repo/engine/backtest.py'' := None)\<rparr>)
      else if command = smoke_cmd
         \<and> files h ''/repo/engine/backtest.py'' = Some backup_wiping_script then
        (\<lparr>stdout = [], stderr = [], returncode = 1, raised = None\<rparr>,
         h\<lparr>files := (\<lambda>f. if is_backup_name f then None else files h f)\<rparr>)
      else demo_shell command h)"

text \<open>The fixed part of the message of a blocked command, before the echoed command.\<close>

definition msg_blocked_head :: string where
  "msg_blocked_head =
     ''Comando bloqueado. O driver s'' @ [o_acute] @ '' permite atualmente:'' @ [backslash, CHR ''n'']
     @ ''- python engine/fetch_data.py ...'' @ [backslash, CHR ''n'']
     @ ''- python engine/backtest.py ...'' @ [backslash, CHR ''n'']
     @ ''- python engine/analyze_runs.py ...'' @ [backslash, CHR ''n'']
     @ ''- python engine/plot_strategy.py ...'' @ [backslash, CHR ''n'']
     @ ''- python engine/optimize_params.py ...'' @ [backslash, CHR ''n'']
     @ ''- pip install -r requirements.txt'' @ [backslash, CHR ''n'']
     @ ''Comando solicitado: ''"

section \<open>Basic facts\<close>

lemma dispatch_modify_engine:
  "dict_get action ''type'' = PStr ''modify_engine'' \<Longrightarrow>
   dispatch E action w = handle_modify_engine E action w"
  by (simp add: dispatch_def)

lemma py_resolve_not_path:
  "\<forall>p. v \<noteq> PPath p \<Longrightarrow> py_resolve E v w = Inl (attribute_error v ''resolve'', w)"
  by (cases v) (simp_all add: py_resolve_def)

lemma msg_blocked_split: "msg_blocked_command command = msg_blocked_head @ command"
  unfolding msg_blocked_command_def msg_blocked_head_def by (simp only: append_assoc)

lemma prefixes_in_head: "list_all (\<lambda>p. sublist p msg_blocked_head) allowed_prefixes"
  by code_simp

lemma allowed_prefix_in_message:
  "list_all (\<lambda>p. sublist p (msg_blocked_command command)) allowed_prefixes"
  using prefixes_in_head
  by (simp add: list_all_iff msg_blocked_split sublist_append)

lemma command_in_message: "suffix command (msg_blocked_command command)"
  by (simp add: msg_blocked_split suffix_def)

lemma dispatch_run_command:
  "dict_get action ''type'' = PStr ''run_command'' \<Longrightarrow>
   dispatch E action w = handle_run_command E action w"
  by (simp add: dispatch_def)

lemma dispatch_unknown:
  "dict_get action ''type'' \<notin> PStr ` set [''list_dir'', ''read_file'', ''write_file'', ''modify_engine'', ''run_command'']
   \<Longrightarrow> dispatch E action w = handle_unknown action w"
  by (auto simp add: dispatch_def)

lemma dict_get_absent: "map_of d k = None \<Longrightarrow> dict_get d k = PNone"
  by (simp add: dict_get_def)

lemma dict_get_default_absent: "map_of d k = None \<Longrightarrow> dict_get_default d k v = v"
  by (simp add: dict_get_default_def)

lemma dispatch_all_length:
  "dispatch_all E actions w = Inr (rs, w') \<Longrightarrow> length rs = length actions"
proof (induction actions arbitrary: w rs)
  case Nil
  then show ?case by simp
next
  case (Cons a rest)
  then show ?case by (auto split: sum.splits prod.splits)
qed

lemma allowed_command_never_runs:
  assumes "dict_get action ''type'' = PStr ''run_command''"
    and "dict_get_default action ''command'' (PStr []) = PStr s"
    and "py_strip s \<noteq> []"
    and "allow_run_commands E"
    and "list_ex (\<lambda>p. prefix p (py_strip s)) allowed_prefixes"
  shows "dispatch E action w =
           Inl (TypeError (''run_command() got an unexpected keyword argument ''
                           @ [squote] @ ''cwd'' @ [squote]), w)"
  using assms by (simp add: dispatch_def handle_run_command_def call_run_command_def)

lemma command_not_a_string_raises:
  assumes "dict_get action ''type'' = PStr ''run_command''"
    and "dict_get_default action ''command'' (PStr []) = v"
    and "\<forall>s. v \<noteq> PStr s"
  shows "dispatch E action w = Inl (attribute_error v ''strip'', w)"
  using assms by (cases v) (simp_all add: dispatch_def handle_run_command_def)

lemma write_file_into_directory:
  assumes "dict_get action ''type'' = PStr ''write_file''"
    and "dict_get action ''path'' = PStr p"
    and "posix_dirname p \<noteq> []"
    and "dict_get_default action ''content'' (PStr []) = PStr c"
    and "os_fault E (CallMakedirs (posix_dirname p)) (host w) = None"
    and "os_fault E (CallOpenWrite (PStr p)) (host w) = None"
  shows "dispatch E action w =
           Inr ([(''type'', PStr ''write_file''), (''path'', PStr p), (''status'', PStr ''ok'')],
                set_file p c (log_call (CallOpenWrite (PStr p))
                               (log_call (CallMakedirs (posix_dirname p)) w)))"
proof -
  have "p \<noteq> []" using assms(3) by (auto simp add: posix_dirname_def)
  then show ?thesis
    using assms
    by (simp add: dispatch_def handle_write_file_def os_makedirs_def open_write_def log_call_def)
qed

lemma write_file_bare_name_never_writes:
  assumes "dict_get action ''type'' = PStr ''write_file''"
    and "dict_get action ''path'' = PStr p"
    and "p \<noteq> []"
    and "CHR ''/'' \<notin> set p"
  shows "dispatch E action w =
           Inr ([(''type'', PStr ''write_file''), (''path'', PStr p),
                 (''error'', PStr (''[Errno 2] No such file or directory: '' @ [squote, squote]))],
                log_call (CallMakedirs []) w)"
proof -
  have "dropWhile (\<lambda>c. c \<noteq> CHR ''/'') (rev p) = []"
    using assms(4) by (auto simp add: dropWhile_eq_Nil_conv)
  then have "posix_dirname p = []" by (simp add: posix_dirname_def)
  then show ?thesis
    using assms
    by (simp add: dispatch_def handle_write_file_def os_makedirs_def write_file_error_def
        no_such_file_def str_repr_def)
qed

subsection \<open>The example project\<close>

lemma demo_engine_file: "engine_file demo_env = ''/repo/engine/backtest.py''"
  by (simp add: engine_file_def path_join_def demo_env_def)

lemma demo_backup_file:
  "backup_file demo_env (strftime_stamp (now demo_host)) = ''/repo/engine/backtest_backup_20240309_140500.py''"
  by (simp add: backup_file_def path_join_def demo_env_def strftime_stamp_def demo_host_def pad2_def
      dec_nat.simps dec_digit_def)

lemma demo_host_of_world: "host demo_world = demo_host"
  by (simp add: demo_world_def)

lemma demo_realpath: "os_realpath demo_env p h = p"
  by (simp add: demo_env_def)

lemma demo_no_fault: "os_fault demo_env c h = None"
  by (simp add: demo_env_def)

lemma demo_os_shell: "os_shell demo_env = demo_shell"
  by (simp add: demo_env_def)

subsection \<open>The guard, step by step\<close>

lemma universal_newlines_without_cr:
  "CHR 0x0D \<notin> set s \<Longrightarrow> universal_newlines s = s"
  by (induction s rule: universal_newlines.induct) auto

lemma path_join_inject: "path_join d a = path_join d b \<longleftrightarrow> a = b"
  by (simp add: path_join_def)

lemma backup_is_not_engine_file: "backup_file E ts \<noteq> engine_file E"
  by (simp add: backup_file_def engine_file_def path_join_inject)

lemma guard_run:
  assumes "os_realpath E p (host w) = os_realpath E (engine_file E) (host w)"
    and "files (host w) (engine_file E) = Some original"
    and "setup_returns E (universal_newlines original) (host w)"
  shows "safe_modify_engine_backtest E (PPath p) (PStr proposed) w =
     (case raised (fst (compile_run E (universal_newlines original) proposed (host w))) of
        Some e \<Rightarrow>
          Inl (e, w\<lparr>host := snd (compile_run E (universal_newlines original) proposed (host w)),
                   trace := guard_trace E p w @ [CallSpawn compile_cmd]\<rparr>)
      | None \<Rightarrow>
     if returncode (fst (compile_run E (universal_newlines original) proposed (host w))) \<noteq> 0 then
       (case os_fault E (CallWriteText (engine_file E))
               (snd (compile_run E (universal_newlines original) proposed (host w))) of
          Some e \<Rightarrow>
            Inl (e, w\<lparr>host := snd (compile_run E (universal_newlines original) proposed (host w)),
                     trace := guard_trace E p w
                              @ [CallSpawn compile_cmd, CallWriteText (engine_file E)]\<rparr>)
        | None \<Rightarrow>
            Inr ([(''type'', PStr ''write_file''), (''path'', PStr (engine_file E)),
                  (''status'', PStr ''reverted''), (''stage'', PStr ''compile''),
                  (''error'', PStr msg_compile_failed),
                  (''backup_path'', PStr (backup_file E (strftime_stamp (now (host w))))),
                  (''compile_result'', PDict (proc_dict
                     (fst (compile_run E (universal_newlines original) proposed (host w)))))],
                 w\<lparr>host := (snd (compile_run E (universal_newlines original) proposed (host w)))
                       \<lparr>files := (files (snd (compile_run E (universal_newlines original)
                                                   proposed (host w))))
                                   (engine_file E \<mapsto> universal_newlines original)\<rparr>,
                   trace := guard_trace E p w
                            @ [CallSpawn compile_cmd, CallWriteText (engine_file E)]\<rparr>))
     else
     (case raised (fst (smoke_run E (universal_newlines original) proposed (host w))) of
        Some e \<Rightarrow>
          Inl (e, w\<lparr>host := snd (smoke_run E (universal_newlines original) proposed (host w)),
                   trace := guard_trace E p w @ [CallSpawn compile_cmd, CallSpawn smoke_cmd]\<rparr>)
      | None \<Rightarrow>
     if returncode (fst (smoke_run E (universal_newlines original) proposed (host w))) \<noteq> 0 then
       (case os_fault E (CallWriteText (engine_file E))
               (snd (smoke_run E (universal_newlines original) proposed (host w))) of
          Some e \<Rightarrow>
            Inl (e, w\<lparr>host := snd (smoke_run E (universal_newlines original) proposed (host w)),
                     trace := guard_trace E p w
                              @ [CallSpawn compile_cmd, CallSpawn smoke_cmd,
                                 CallWriteText (engine_file E)]\<rparr>)
        | None \<Rightarrow>
            Inr ([(''type'', PStr ''write_file''), (''path'', PStr (engine_file E)),
                  (''status'', PStr ''reverted''), (''stage'', PStr ''smoke_test''),
                  (''error'', PStr msg_smoke_failed),
                  (''backup_path'', PStr (backup_file E (strftime_stamp (now (host w))))),
                  (''smoke_result'', PDict (proc_dict
                     (fst (smoke_run E (universal_newlines original) proposed (host w)))))],
                 w\<lparr>host := (snd (smoke_run E (universal_newlines original) proposed (host w)))
                       \<lparr>files := (files (snd (smoke_run E (universal_newlines original)
                                                   proposed (host w))))
                                   (engine_file E \<mapsto> universal_newlines original)\<rparr>,
                   trace := guard_trace E p w
                            @ [CallSpawn compile_cmd, CallSpawn smoke_cmd,
                               CallWriteText (engine_file E)]\<rparr>))
     else
       Inr ([(''type'', PStr ''write_file''), (''path'', PStr (engine_file E)),
             (''status'', PStr ''ok''),
             (''backup_path'', PStr (backup_file E (strftime_stamp (now (host w))))),
             (''compile_result'', PDict (proc_dict
                (fst (compile_run E (universal_newlines original) proposed (host w))))),
             (''smoke_result'', PDict (proc_dict
                (fst (smoke_run E (universal_newlines original) proposed (host w)))))],
            w\<lparr>host := snd (smoke_run E (universal_newlines original) proposed (host w)),
              trace := guard_trace E p w @ [CallSpawn compile_cmd, CallSpawn smoke_cmd]\<rparr>)))"
  using assms
  by (simp add: safe_modify_engine_backtest_def py_resolve_def path_resolve_def path_exists_def
      read_text_def write_text_def run_command_def log_call_def set_file_def setup_returns_def
      backed_up_host_def compile_run_def smoke_run_def written_host_def guard_trace_def
      proc_dict_def dict_get_def py_str_def split: option.split)

subsection \<open>The checks on the example project\<close>

lemma demo_setup_returns: "setup_returns demo_env t h"
  by (simp add: setup_returns_def demo_no_fault)

lemma demo_protected_content:
  "files demo_host ''/repo/engine/backtest.py'' = Some ''def f(): return 1''"
  by (simp add: demo_host_def)

lemma demo_written_host:
  "written_host demo_env t c demo_host =
     demo_host\<lparr>files := (files demo_host)
        (''/repo/engine/backtest_backup_20240309_140500.py'' \<mapsto> t,
         ''/repo/engine/backtest.py'' \<mapsto> c)\<rparr>"
  by (simp add: written_host_def demo_backup_file demo_engine_file)

lemma demo_compile_rejects:
  "fst (compile_run demo_env t ''x = = 1'' demo_host) =
     \<lparr>stdout = [], stderr = syntax_error_report, returncode = 1, raised = None\<rparr>
   \<and> snd (compile_run demo_env t ''x = = 1'' demo_host) =
       written_host demo_env t ''x = = 1'' demo_host"
  by (simp add: compile_run_def demo_os_shell demo_shell_def demo_written_host)

lemma demo_compile_accepts:
  "c \<noteq> ''x = = 1'' \<Longrightarrow>
   fst (compile_run demo_env t c demo_host) =
     \<lparr>stdout = [], stderr = [], returncode = 0, raised = None\<rparr>
   \<and> snd (compile_run demo_env t c demo_host) =
       (written_host demo_env t c demo_host)
         \<lparr>files := (files (written_host demo_env t c demo_host))
            (''/repo/engine/__pycache__/backtest.cpython-312.pyc'' \<mapsto> ''(bytecode)'')\<rparr>"
  by (simp add: compile_run_def demo_os_shell demo_shell_def demo_written_host)

lemma demo_smoke_rejects:
  "fst (smoke_run demo_env t ''raise SystemExit(1)'' demo_host) =
     \<lparr>stdout = [], stderr = [], returncode = 1, raised = None\<rparr>
   \<and> snd (smoke_run demo_env t ''raise SystemExit(1)'' demo_host) =
       snd (compile_run demo_env t ''raise SystemExit(1)'' demo_host)"
  by (simp add: smoke_run_def demo_compile_accepts demo_os_shell demo_shell_def demo_written_host
      compile_cmd_def smoke_cmd_def)

lemma demo_smoke_accepts:
  "fst (smoke_run demo_env t ''def f(): return 2'' demo_host) =
     \<lparr>stdout = [], stderr = [], returncode = 0, raised = None\<rparr>
   \<and> snd (smoke_run demo_env t ''def f(): return 2'' demo_host) =
       snd (compile_run demo_env t ''def f(): return 2'' demo_host)"
  by (simp add: smoke_run_def demo_compile_accepts demo_os_shell demo_shell_def demo_written_host
      compile_cmd_def smoke_cmd_def)

lemma demo_run_keeps_backup_compile:
  "run_keeps demo_env compile_cmd h ''/repo/engine/backtest_backup_20240309_140500.py''"
  by (simp add: run_keeps_def demo_os_shell demo_shell_def)

lemma demo_run_keeps_smoke: "run_keeps demo_env smoke_cmd h f"
  by (simp add: run_keeps_def demo_os_shell demo_shell_def compile_cmd_def smoke_cmd_def)

lemma demo_run_keeps_engine_compile:
  "run_keeps demo_env compile_cmd h ''/repo/engine/backtest.py''"
  by (simp add: run_keeps_def demo_os_shell demo_shell_def)

subsection \<open>Runs of the guard the claims do not cover\<close>

text \<open>
  Five runs on the example project, each from a call the guard can receive: a protected file
  with CRLF line endings and a failing compile check; a smoke test that exits 1 with output
  that cannot be decoded; a smoke test that deletes the backup and exits 1; a smoke test that
  deletes the protected file and exits 0; a smoke test that exits 0 with output that cannot be
  decoded.
\<close>

lemma engine_file_other_shell: "engine_file (E\<lparr>os_shell := sh\<rparr>) = engine_file E"
  by (simp add: engine_file_def)

lemma backup_file_other_shell: "backup_file (E\<lparr>os_shell := sh\<rparr>) ts = backup_file E ts"
  by (simp add: backup_file_def)

lemma setup_returns_other_shell:
  "setup_returns (E\<lparr>os_shell := sh\<rparr>) t h = setup_returns E t h"
  by (simp add: setup_returns_def backed_up_host_def engine_file_other_shell backup_file_other_shell)

lemma written_host_other_shell:
  "written_host (E\<lparr>os_shell := sh\<rparr>) t c h = written_host E t c h"
  by (simp add: written_host_def engine_file_other_shell backup_file_other_shell)

lemma guard_trace_other_shell:
  "guard_trace (E\<lparr>os_shell := sh\<rparr>) p w = guard_trace E p w"
  by (simp add: guard_trace_def engine_file_other_shell backup_file_other_shell)

lemma crlf_world_host:
  "host crlf_world = demo_host\<lparr>files := [''/repo/engine/backtest.py''
                                   \<mapsto> ''def f(): return 1'' @ [CHR 0x0D, CHR 0x0A]]\<rparr>"
  by (simp add: crlf_world_def)

lemma crlf_translated:
  "universal_newlines (''def f(): return 1'' @ [CHR 0x0D, CHR 0x0A]) = ''def f(): return 1'' @ [CHR 0x0A]"
  by simp

lemma crlf_restored_as_lf:
  "case safe_modify_engine_backtest demo_env (PPath ''/repo/engine/backtest.py'')
            (PStr ''x = = 1'') crlf_world of
       Inl x \<Rightarrow> False
     | Inr (res, w') \<Rightarrow>
         dict_get res ''status'' = PStr ''reverted''
       \<and> dict_get res ''stage'' = PStr ''compile''
       \<and> files (host crlf_world) ''/repo/engine/backtest.py''
           = Some (''def f(): return 1'' @ [CHR 0x0D, CHR 0x0A])
       \<and> files (host w') ''/repo/engine/backtest.py'' = Some (''def f(): return 1'' @ [CHR 0x0A])
       \<and> files (host w') ''/repo/engine/backtest_backup_20240309_140500.py''
           = Some (''def f(): return 1'' @ [CHR 0x0A])"
proof -
  have h1: "os_realpath demo_env ''/repo/engine/backtest.py'' (host crlf_world)
              = os_realpath demo_env (engine_file demo_env) (host crlf_world)"
    by (simp add: demo_realpath demo_engine_file)
  have h2: "files (host crlf_world) (engine_file demo_env)
              = Some (''def f(): return 1'' @ [CHR 0x0D, CHR 0x0A])"
    by (simp add: crlf_world_host demo_engine_file)
  have h3: "setup_returns demo_env
              (universal_newlines (''def f(): return 1'' @ [CHR 0x0D, CHR 0x0A])) (host crlf_world)"
    by (rule demo_setup_returns)
  have n: "now (host crlf_world) = now demo_host"
    by (simp add: crlf_world_host)
  have b: "backup_file demo_env (strftime_stamp (now (host crlf_world)))
             = ''/repo/engine/backtest_backup_20240309_140500.py''"
    by (simp add: n demo_backup_file)
  have wh: "files (written_host demo_env t c (host crlf_world)) ''/repo/engine/backtest.py''
              = Some c
            \<and> files (written_host demo_env t c (host crlf_world))
                ''/repo/engine/backtest_backup_20240309_140500.py'' = Some t" for t c
    by (simp add: written_host_def demo_backup_file demo_engine_file crlf_world_host)
  have cr: "compile_run demo_env t ''x = = 1'' (host crlf_world)
            = (\<lparr>stdout = [], stderr = syntax_error_report, returncode = 1,
                 raised = None\<rparr>,
               written_host demo_env t ''x = = 1'' (host crlf_world))" for t
    by (simp add: compile_run_def demo_os_shell demo_shell_def wh)
  show ?thesis
    using h2
    by (simp add: guard_run [OF h1 h2 h3] crlf_translated cr demo_no_fault dict_get_def
        demo_engine_file b wh)
qed

lemma script_compile_run:
  "compile_run (demo_env\<lparr>os_shell := script_shell\<rparr>) t c h = compile_run demo_env t c h"
  by (simp add: compile_run_def script_shell_def written_host_other_shell demo_os_shell
      compile_cmd_def smoke_cmd_def)

lemma script_smoke_run:
  "smoke_run (demo_env\<lparr>os_shell := script_shell\<rparr>) t c h
     = script_shell smoke_cmd (snd (compile_run demo_env t c h))"
  by (simp add: smoke_run_def script_compile_run)

lemma demo_compiled_host:
  "c \<noteq> ''x = = 1'' \<Longrightarrow>
   files (snd (compile_run demo_env t c demo_host)) ''/repo/engine/backtest.py'' = Some c
   \<and> files (snd (compile_run demo_env t c demo_host))
       ''/repo/engine/backtest_backup_20240309_140500.py'' = Some t"
  by (simp add: demo_compile_accepts demo_written_host)

lemma script_realpath:
  "os_realpath (demo_env\<lparr>os_shell := script_shell\<rparr>) ''/repo/engine/backtest.py'' (host demo_world)
     = os_realpath (demo_env\<lparr>os_shell := script_shell\<rparr>)
         (engine_file (demo_env\<lparr>os_shell := script_shell\<rparr>)) (host demo_world)"
  by (simp add: demo_realpath demo_engine_file engine_file_other_shell)

lemma script_protected_content:
  "files (host demo_world) (engine_file (demo_env\<lparr>os_shell := script_shell\<rparr>))
     = Some ''def f(): return 1''"
  by (simp add: demo_host_of_world demo_engine_file demo_protected_content engine_file_other_shell)

lemma script_setup_returns:
  "setup_returns (demo_env\<lparr>os_shell := script_shell\<rparr>) t h"
  by (simp only: setup_returns_other_shell demo_setup_returns)

lemma backup_name_matches: "is_backup_name ''/repo/engine/backtest_backup_20240309_140500.py''"
  by (simp add: is_backup_name_def suffix_to_prefix)

lemma noisy_failing_checks:
  "fst (compile_run (demo_env\<lparr>os_shell := script_shell\<rparr>) t noisy_failing_script demo_host)
     = \<lparr>stdout = [], stderr = [], returncode = 0, raised = None\<rparr>
   \<and> smoke_run (demo_env\<lparr>os_shell := script_shell\<rparr>) t noisy_failing_script demo_host
     = (\<lparr>stdout = [], stderr = [], returncode = 1, raised = Some undecodable_output\<rparr>,
        snd (compile_run demo_env t noisy_failing_script demo_host))"
proof -
  have ne: "noisy_failing_script \<noteq> ''x = = 1''"
    by (simp add: noisy_failing_script_def)
  have c: "fst (compile_run (demo_env\<lparr>os_shell := script_shell\<rparr>) t noisy_failing_script demo_host)
     = \<lparr>stdout = [], stderr = [], returncode = 0, raised = None\<rparr>"
    by (simp add: script_compile_run demo_compile_accepts [OF ne])
  have s: "smoke_run (demo_env\<lparr>os_shell := script_shell\<rparr>) t noisy_failing_script demo_host
     = (\<lparr>stdout = [], stderr = [], returncode = 1, raised = Some undecodable_output\<rparr>,
        snd (compile_run demo_env t noisy_failing_script demo_host))"
    unfolding script_smoke_run
    using demo_compiled_host [OF ne]
    by (simp add: script_shell_def)
  show ?thesis
    using c s by blast
qed

lemma noisy_checks:
  "fst (compile_run (demo_env\<lparr>os_shell := script_shell\<rparr>) t noisy_script demo_host)
     = \<lparr>stdout = [], stderr = [], returncode = 0, raised = None\<rparr>
   \<and> smoke_run (demo_env\<lparr>os_shell := script_shell\<rparr>) t noisy_script demo_host
     = (\<lparr>stdout = [], stderr = [], returncode = 0, raised = Some undecodable_output\<rparr>,
        snd (compile_run demo_env t noisy_script demo_host))"
proof -
  have ne: "noisy_script \<noteq> ''x = = 1''"
    by (simp add: noisy_script_def)
  have other: "noisy_script \<noteq> noisy_failing_script"
    by (simp add: noisy_script_def noisy_failing_script_def)
  have c: "fst (compile_run (demo_env\<lparr>os_shell := script_shell\<rparr>) t noisy_script demo_host)
     = \<lparr>stdout = [], stderr = [], returncode = 0, raised = None\<rparr>"
    by (simp add: script_compile_run demo_compile_accepts [OF ne])
  have s: "smoke_run (demo_env\<lparr>os_shell := script_shell\<rparr>) t noisy_script demo_host
     = (\<lparr>stdout = [], stderr = [], returncode = 0, raised = Some undecodable_output\<rparr>,
        snd (compile_run demo_env t noisy_script demo_host))"
    unfolding script_smoke_run
    using demo_compiled_host [OF ne] other
    by (simp add: script_shell_def)
  show ?thesis
    using c s by blast
qed

lemma self_removing_checks:
  "fst (compile_run (demo_env\<lparr>os_shell := script_shell\<rparr>) t self_removing_script demo_host)
     = \<lparr>stdout = [], stderr = [], returncode = 0, raised = None\<rparr>
   \<and> smoke_run (demo_env\<lparr>os_shell := script_shell\<rparr>) t self_removing_script demo_host
     = (\<lparr>stdout = [], stderr = [], returncode = 0, raised = None\<rparr>,
        (snd (compile_run demo_env t self_removing_script demo_host))
          \<lparr>files := (files (snd (compile_run demo_env t self_removing_script demo_host)))
             (''/repo/engine/backtest.py'' := None)\<rparr>)"
proof -
  have ne: "self_removing_script \<noteq> ''x = = 1''"
    by (simp add: self_removing_script_def)
  have other: "self_removing_script \<noteq> noisy_failing_script"
    "self_removing_script \<noteq> noisy_script"
    by (simp_all add: self_removing_script_def noisy_script_def noisy_failing_script_def)
  have c: "fst (compile_run (demo_env\<lparr>os_shell := script_shell\<rparr>) t self_removing_script demo_host)
     = \<lparr>stdout = [], stderr = [], returncode = 0, raised = None\<rparr>"
    by (simp add: script_compile_run demo_compile_accepts [OF ne])
  have s: "smoke_run (demo_env\<lparr>os_shell := script_shell\<rparr>) t self_removing_script demo_host
     = (\<lparr>stdout = [], stderr = [], returncode = 0, raised = None\<rparr>,
        (snd (compile_run demo_env t self_removing_script demo_host))
          \<lparr>files := (files (snd (compile_run demo_env t self_removing_script demo_host)))
             (''/repo/engine/backtest.py'' := None)\<rparr>)"
    unfolding script_smoke_run
    using demo_compiled_host [OF ne] other
    by (simp add: script_shell_def)
  show ?thesis
    using c s by blast
qed

lemma backup_wiping_checks:
  "fst (compile_run (demo_env\<lparr>os_shell := script_shell\<rparr>) t backup_wiping_script demo_host)
     = \<lparr>stdout = [], stderr = [], returncode = 0, raised = None\<rparr>
   \<and> smoke_run (demo_env\<lparr>os_shell := script_shell\<rparr>) t backup_wiping_script demo_host
     = (\<lparr>stdout = [], stderr = [], returncode = 1, raised = None\<rparr>,
        (snd (compile_run demo_env t backup_wiping_script demo_host))
          \<lparr>files := (\<lambda>f. if is_backup_name f then None
                          else files (snd (compile_run demo_env t backup_wiping_script demo_host)) f)\<rparr>)"
proof -
  have ne: "backup_wiping_script \<noteq> ''x = = 1''"
    by (simp add: backup_wiping_script_def)
  have other: "backup_wiping_script \<noteq> noisy_failing_script"
    "backup_wiping_script \<noteq> noisy_script"
    "backup_wiping_script \<noteq> self_removing_script"
    by (simp_all add: backup_wiping_script_def self_removing_script_def noisy_script_def
        noisy_failing_script_def)
  have c: "fst (compile_run (demo_env\<lparr>os_shell := script_shell\<rparr>) t backup_wiping_script demo_host)
     = \<lparr>stdout = [], stderr = [], returncode = 0, raised = None\<rparr>"
    by (simp add: script_compile_run demo_compile_accepts [OF ne])
  have s: "smoke_run (demo_env\<lparr>os_shell := script_shell\<rparr>) t backup_wiping_script demo_host
     = (\<lparr>stdout = [], stderr = [], returncode = 1, raised = None\<rparr>,
        (snd (compile_run demo_env t backup_wiping_script demo_host))
          \<lparr>files := (\<lambda>f. if is_backup_name f then None
                          else files (snd (compile_run demo_env t backup_wiping_script demo_host)) f)\<rparr>)"
    unfolding script_smoke_run
    using demo_compiled_host [OF ne] other
    by (simp add: script_shell_def)
  show ?thesis
    using c s by blast
qed

lemma undecodable_output_of_failing_check:
  "case safe_modify_engine_backtest (demo_env\<lparr>os_shell := script_shell\<rparr>)
            (PPath ''/repo/engine/backtest.py'') (PStr noisy_failing_script) demo_world of
       Inl (e, w') \<Rightarrow>
         e = undecodable_output
       \<and> files (host demo_world) ''/repo/engine/backtest.py'' = Some ''def f(): return 1''
       \<and> files (host w') ''/repo/engine/backtest.py'' = Some noisy_failing_script
     | Inr r \<Rightarrow> False"
proof -
  have ne: "noisy_failing_script \<noteq> ''x = = 1''"
    by (simp add: noisy_failing_script_def)
  show ?thesis
    by (simp add: guard_run [OF script_realpath script_protected_content script_setup_returns]
        noisy_failing_checks demo_host_of_world demo_compiled_host [OF ne] demo_protected_content)
qed

lemma wiped_backup_is_gone:
  "case safe_modify_engine_backtest (demo_env\<lparr>os_shell := script_shell\<rparr>)
            (PPath ''/repo/engine/backtest.py'') (PStr backup_wiping_script) demo_world of
       Inl x \<Rightarrow> False
     | Inr (res, w') \<Rightarrow>
         dict_get res ''status'' = PStr ''reverted''
       \<and> dict_get res ''stage'' = PStr ''smoke_test''
       \<and> dict_get res ''backup_path'' = PStr ''/repo/engine/backtest_backup_20240309_140500.py''
       \<and> files (host w') ''/repo/engine/backtest_backup_20240309_140500.py'' = None"
  by (simp add: guard_run [OF script_realpath script_protected_content script_setup_returns]
      backup_wiping_checks demo_host_of_world demo_no_fault dict_get_def backup_name_matches
      engine_file_other_shell backup_file_other_shell demo_engine_file demo_backup_file)

lemma removed_file_is_committed:
  "case safe_modify_engine_backtest (demo_env\<lparr>os_shell := script_shell\<rparr>)
            (PPath ''/repo/engine/backtest.py'') (PStr self_removing_script) demo_world of
       Inl x \<Rightarrow> False
     | Inr (res, w') \<Rightarrow>
         dict_get res ''status'' = PStr ''ok''
       \<and> dict_get res ''compile_result''
           = PDict [(''stdout'', PStr []), (''stderr'', PStr []), (''returncode'', PInt 0)]
       \<and> dict_get res ''smoke_result''
           = PDict [(''stdout'', PStr []), (''stderr'', PStr []), (''returncode'', PInt 0)]
       \<and> files (host w') ''/repo/engine/backtest.py'' = None"
  by (simp add: guard_run [OF script_realpath script_protected_content script_setup_returns]
      self_removing_checks demo_host_of_world dict_get_def proc_dict_def)

lemma undecodable_output_of_passing_check:
  "case safe_modify_engine_backtest (demo_env\<lparr>os_shell := script_shell\<rparr>)
            (PPath ''/repo/engine/backtest.py'') (PStr noisy_script) demo_world of
       Inl (e, w') \<Rightarrow> e = undecodable_output
     | Inr r \<Rightarrow> False"
  by (simp add: guard_run [OF script_realpath script_protected_content script_setup_returns]
      noisy_checks demo_host_of_world)

section \<open>The claims\<close>

text \<open>
  C9. A \<^verbatim>\<open>modify_engine\<close> action dispatched with the mutation capability enabled, whose
  \<^verbatim>\<open>path\<close> field is anything but a \<^verbatim>\<open>Path\<close> object (a decoded JSON value never is one:
  it is a string, another JSON value, or absent and then \<^verbatim>\<open>None\<close>), gets a result with
  status \<^verbatim>\<open>error\<close> and exactly the fields \<^verbatim>\<open>type\<close>, \<^verbatim>\<open>path\<close>, \<^verbatim>\<open>status\<close>,
  \<^verbatim>\<open>message\<close>: no \<^verbatim>\<open>backup_path\<close>, no \<^verbatim>\<open>stage\<close>. The message is that of the
  \<^verbatim>\<open>AttributeError\<close> raised by \<^verbatim>\<open>path.resolve()\<close>, the guard's first step, so the world
  is left as it was: no file is touched and no call reaches the operating system.
\<close>

theorem modify_engine_dispatch_errors:
  assumes "dict_get action ''type'' = PStr ''modify_engine''"
    and "allow_modify_engine E"
    and "\<forall>p. dict_get action ''path'' \<noteq> PPath p"
  shows "dispatch E action w =
           Inr ([(''type'', PStr ''modify_engine''), (''path'', dict_get action ''path''),
                 (''status'', PStr ''error''),
                 (''message'', PStr ([squote] @ type_name (dict_get action ''path'') @ [squote]
                     @ '' object has no attribute '' @ [squote] @ ''resolve'' @ [squote]))], w)"
  using assms
  by (simp add: dispatch_modify_engine handle_modify_engine_def py_resolve_not_path
      safe_modify_engine_backtest_def modify_engine_error_def attribute_error_def)

theorem modify_engine_dispatch_errors_witness:
  "dict_get [(''type'', PStr ''modify_engine''), (''path'', PStr ''engine/backtest.py''),
             (''content'', PStr ''def f(): return 2'')] ''type'' = PStr ''modify_engine''
   \<and> allow_modify_engine demo_env
   \<and> (\<forall>p. dict_get [(''type'', PStr ''modify_engine''), (''path'', PStr ''engine/backtest.py''),
             (''content'', PStr ''def f(): return 2'')] ''path'' \<noteq> PPath p)
   \<and> dispatch demo_env
        [(''type'', PStr ''modify_engine''), (''path'', PStr ''engine/backtest.py''),
         (''content'', PStr ''def f(): return 2'')] demo_world
      = Inr ([(''type'', PStr ''modify_engine''), (''path'', PStr ''engine/backtest.py''),
              (''status'', PStr ''error''),
              (''message'', PStr ([squote] @ ''str'' @ [squote] @ '' object has no attribute ''
                                  @ [squote] @ ''resolve'' @ [squote]))], demo_world)"
  using modify_engine_dispatch_errors
    [of "[(''type'', PStr ''modify_engine''), (''path'', PStr ''engine/backtest.py''),
          (''content'', PStr ''def f(): return 2'')]" demo_env demo_world]
  by (simp add: dict_get_def demo_env_def)

text \<open>
  C8. An action whose \<^verbatim>\<open>type\<close> is none of the five recognized strings gets exactly one
  result: status \<^verbatim>\<open>error\<close>, with the whole original action under \<^verbatim>\<open>raw_action\<close>.
  The world (files, clock and call trace) is unchanged, and the batch goes on: the remaining
  actions are dispatched from the same world and their results follow this one.
\<close>

theorem unknown_action_error_result:
  assumes "dict_get action ''type'' \<notin> PStr ` set [''list_dir'', ''read_file'', ''write_file'', ''modify_engine'', ''run_command'']"
  shows "dispatch E action w =
           Inr ([(''type'', if py_truthy (dict_get action ''type'') then dict_get action ''type''
                            else PStr ''unknown''),
                 (''status'', PStr ''error''),
                 (''error'', PStr (msg_unknown_action (dict_get action ''type''))),
                 (''raw_action'', PDict action)], w)
         \<and> dispatch_all E (action # rest) w =
             (case dispatch_all E rest w of
                Inl x \<Rightarrow> Inl x
              | Inr (rs, w') \<Rightarrow>
                  Inr ([(''type'', if py_truthy (dict_get action ''type'') then dict_get action ''type''
                                   else PStr ''unknown''),
                        (''status'', PStr ''error''),
                        (''error'', PStr (msg_unknown_action (dict_get action ''type''))),
                        (''raw_action'', PDict action)] # rs, w'))"
  using assms by (simp add: dispatch_unknown handle_unknown_def)

theorem unknown_action_error_result_witness:
  "dict_get [(''type'', PStr ''delete_file''), (''path'', PStr ''README.md'')] ''type''
     \<notin> PStr ` set [''list_dir'', ''read_file'', ''write_file'', ''modify_engine'', ''run_command'']
   \<and> dispatch demo_env [(''type'', PStr ''delete_file''), (''path'', PStr ''README.md'')] demo_world =
       Inr ([(''type'', PStr ''delete_file''), (''status'', PStr ''error''),
             (''error'', PStr (''A'' @ [c_cedilla, a_tilde] @ ''o desconhecida: delete_file'')),
             (''raw_action'', PDict [(''type'', PStr ''delete_file''), (''path'', PStr ''README.md'')])],
            demo_world)
   \<and> dispatch_all demo_env
        [[(''type'', PStr ''delete_file''), (''path'', PStr ''README.md'')], [(''type'', PStr ''list_dir'')]]
        demo_world =
       Inr ([[(''type'', PStr ''delete_file''), (''status'', PStr ''error''),
              (''error'', PStr (''A'' @ [c_cedilla, a_tilde] @ ''o desconhecida: delete_file'')),
              (''raw_action'', PDict [(''type'', PStr ''delete_file''), (''path'', PStr ''README.md'')])],
             [(''type'', PStr ''list_dir''), (''path'', PStr ''.''),
              (''items'', PList [PStr ''README.md'', PStr ''agent'', PStr ''engine'', PStr ''strategies''])]],
            demo_world\<lparr>trace := [CallListdir (PStr ''.'')]\<rparr>)"
  using unknown_action_error_result
    [of "[(''type'', PStr ''delete_file''), (''path'', PStr ''README.md'')]" demo_env demo_world
        "[[(''type'', PStr ''list_dir'')]]"]
  by (simp add: dict_get_def msg_unknown_action_def py_str_def dispatch_def handle_list_dir_def
      dict_get_default_def os_listdir_def demo_env_def log_call_def demo_world_def)

text \<open>
  C6. A \<^verbatim>\<open>run_command\<close> action whose command is a string that, once stripped, is not
  empty and starts with none of the allowed prefixes (command execution enabled) gets a
  result with status \<^verbatim>\<open>blocked\<close>. Its message ends with the requested command and
  contains every allowed prefix. The world is returned as it was: in particular no subprocess
  call is added to the trace.
\<close>

theorem command_outside_whitelist_blocked:
  assumes "dict_get action ''type'' = PStr ''run_command''"
    and "dict_get_default action ''command'' (PStr []) = PStr s"
    and "py_strip s \<noteq> []"
    and "allow_run_commands E"
    and "\<not> list_ex (\<lambda>p. prefix p (py_strip s)) allowed_prefixes"
  shows "dispatch E action w =
           Inr ([(''type'', PStr ''run_command''), (''command'', PStr (py_strip s)),
                 (''status'', PStr ''blocked''),
                 (''error'', PStr (msg_blocked_command (py_strip s)))], w)
         \<and> suffix (py_strip s) (msg_blocked_command (py_strip s))
         \<and> list_all (\<lambda>p. sublist p (msg_blocked_command (py_strip s))) allowed_prefixes"
  using assms
  by (simp add: dispatch_run_command handle_run_command_def command_in_message
      allowed_prefix_in_message)

theorem command_outside_whitelist_blocked_witness:
  "dict_get [(''type'', PStr ''run_command''), (''command'', PStr '' rm -rf / '')] ''type'' = PStr ''run_command''
   \<and> dict_get_default [(''type'', PStr ''run_command''), (''command'', PStr '' rm -rf / '')] ''command'' (PStr [])
       = PStr '' rm -rf / ''
   \<and> py_strip '' rm -rf / '' = ''rm -rf /''
   \<and> allow_run_commands demo_env
   \<and> \<not> list_ex (\<lambda>p. prefix p (py_strip '' rm -rf / '')) allowed_prefixes
   \<and> dispatch demo_env [(''type'', PStr ''run_command''), (''command'', PStr '' rm -rf / '')] demo_world =
       Inr ([(''type'', PStr ''run_command''), (''command'', PStr ''rm -rf /''),
             (''status'', PStr ''blocked''),
             (''error'', PStr (msg_blocked_command ''rm -rf /''))], demo_world)
   \<and> trace demo_world = []"
  using command_outside_whitelist_blocked
    [of "[(''type'', PStr ''run_command''), (''command'', PStr '' rm -rf / '')]" "'' rm -rf / ''"
        demo_env demo_world]
  by (simp add: dict_get_def dict_get_default_def py_strip_def is_space_def demo_env_def
      allowed_prefixes_def demo_world_def)

text \<open>
  C10. A \<^verbatim>\<open>list_dir\<close> action without a \<^verbatim>\<open>path\<close> field is not answered with a
  validation error: the handler lists \<^verbatim>\<open>"."\<close>, the current working directory, and the
  result carries \<^verbatim>\<open>path = "."\<close> and the entries in sorted order (or, when
  \<^verbatim>\<open>os.listdir\<close> itself raises, that exception's message). The same action with its type
  changed to \<^verbatim>\<open>read_file\<close> or \<^verbatim>\<open>write_file\<close> gets the \<^verbatim>\<open>missing path\<close> error
  result and touches nothing.
\<close>

theorem list_dir_default_path:
  assumes "dict_get action ''type'' = PStr ''list_dir''"
    and "map_of action ''path'' = None"
  shows "dispatch E action w =
           (case os_fault E (CallListdir (PStr ''.'')) (host w) of
              None \<Rightarrow>
                Inr ([(''type'', PStr ''list_dir''), (''path'', PStr ''.''),
                      (''items'', PList (map PStr (sort (os_listing E (PStr ''.'') (host w)))))],
                     log_call (CallListdir (PStr ''.'')) w)
            | Some e \<Rightarrow>
                Inr ([(''type'', PStr ''list_dir''), (''path'', PStr ''.''),
                      (''error'', PStr (exn_str e))],
                     log_call (CallListdir (PStr ''.'')) w))
         \<and> sorted (sort (os_listing E (PStr ''.'') (host w)))
         \<and> dispatch E ((''type'', PStr ''read_file'') # filter (\<lambda>kv. fst kv \<noteq> ''type'') action) w =
             Inr ([(''type'', PStr ''read_file''), (''error'', PStr ''missing path'')], w)
         \<and> dispatch E ((''type'', PStr ''write_file'') # filter (\<lambda>kv. fst kv \<noteq> ''type'') action) w =
             Inr ([(''type'', PStr ''write_file''), (''error'', PStr ''missing path'')], w)"
proof -
  have np: "map_of (filter (\<lambda>kv. fst kv \<noteq> ''type'') action) ''path'' = None"
    using assms(2) by (induction action) (auto split: if_splits)
  have a: "dict_get ((''type'', PStr ''read_file'') # filter (\<lambda>kv. fst kv \<noteq> ''type'') action) ''path'' = PNone"
    using np by (simp add: dict_get_def)
  have b: "dict_get ((''type'', PStr ''write_file'') # filter (\<lambda>kv. fst kv \<noteq> ''type'') action) ''path'' = PNone"
    using np by (simp add: dict_get_def)
  have c: "dispatch E action w = handle_list_dir E action w"
    using assms(1) by (simp add: dispatch_def)
  have d: "handle_list_dir E action w =
           (case os_fault E (CallListdir (PStr ''.'')) (host w) of
              None \<Rightarrow>
                Inr ([(''type'', PStr ''list_dir''), (''path'', PStr ''.''),
                      (''items'', PList (map PStr (sort (os_listing E (PStr ''.'') (host w)))))],
                     log_call (CallListdir (PStr ''.'')) w)
            | Some e \<Rightarrow>
                Inr ([(''type'', PStr ''list_dir''), (''path'', PStr ''.''),
                      (''error'', PStr (exn_str e))],
                     log_call (CallListdir (PStr ''.'')) w))"
    by (simp add: handle_list_dir_def dict_get_default_absent [OF assms(2)] os_listdir_def
        split: option.split)
  have e: "dispatch E ((''type'', PStr ''read_file'') # filter (\<lambda>kv. fst kv \<noteq> ''type'') action) w =
             Inr ([(''type'', PStr ''read_file''), (''error'', PStr ''missing path'')], w)"
    unfolding dispatch_def handle_read_file_def a by (simp add: dict_get_def)
  have f: "dispatch E ((''type'', PStr ''write_file'') # filter (\<lambda>kv. fst kv \<noteq> ''type'') action) w =
             Inr ([(''type'', PStr ''write_file''), (''error'', PStr ''missing path'')], w)"
    unfolding dispatch_def handle_write_file_def b by (simp add: dict_get_def)
  show ?thesis using c d e f by simp
qed

theorem list_dir_default_path_witness:
  "dict_get [(''type'', PStr ''list_dir'')] ''type'' = PStr ''list_dir''
   \<and> map_of [(''type'', PStr ''list_dir'')] ''path'' = None
   \<and> dispatch demo_env [(''type'', PStr ''list_dir'')] demo_world =
       Inr ([(''type'', PStr ''list_dir''), (''path'', PStr ''.''),
             (''items'', PList [PStr ''README.md'', PStr ''agent'', PStr ''engine'', PStr ''strategies''])],
            demo_world\<lparr>trace := [CallListdir (PStr ''.'')]\<rparr>)
   \<and> dispatch demo_env [(''type'', PStr ''read_file'')] demo_world =
       Inr ([(''type'', PStr ''read_file''), (''error'', PStr ''missing path'')], demo_world)
   \<and> dispatch demo_env [(''type'', PStr ''write_file'')] demo_world =
       Inr ([(''type'', PStr ''write_file''), (''error'', PStr ''missing path'')], demo_world)"
  using list_dir_default_path [of "[(''type'', PStr ''list_dir'')]" demo_env demo_world]
  by (simp add: dict_get_def demo_env_def log_call_def demo_world_def)

text \<open>
  C5 (the code departs from the claim). A \<^verbatim>\<open>run_command\<close> action whose command starts with
  an allowed prefix should be executed and answered with the exit code and output. The
  dispatcher calls \<^verbatim>\<open>run_command(command, cwd=str(ROOT_DIR))\<close>, but the function takes one
  parameter only: the call raises \<^verbatim>\<open>TypeError\<close> before any subprocess is started (the trace
  stays empty), and no result is produced. Evaluated on the spec's own scenario.
\<close>

theorem allowed_command_raises_type_error:
  "dispatch demo_env
     [(''type'', PStr ''run_command''),
      (''command'', PStr ''python engine/backtest.py strategies/example_ma_crossover.py'')]
     demo_world
   = Inl (TypeError (''run_command() got an unexpected keyword argument ''
                     @ [squote] @ ''cwd'' @ [squote]), demo_world)"
  by (simp add: dispatch_def dict_get_def handle_run_command_def dict_get_default_def
      py_strip_def is_space_def demo_env_def allowed_prefixes_def call_run_command_def)

text \<open>
  C2 (the code departs from the claim). A batch should yield one result per action, and no
  exception should leave the dispatcher. The \<^verbatim>\<open>run_command\<close> block has no \<^verbatim>\<open>try\<close>: in
  the batch below the first action is answered (its read is in the trace), the allowed command
  raises \<^verbatim>\<open>TypeError\<close>, the exception leaves \<^verbatim>\<open>execute_actions\<close>, the result of the
  first action is lost and the third action never runs.
\<close>

theorem batch_aborted_by_allowed_command:
  "execute_actions demo_env
     [[(''type'', PStr ''read_file''), (''path'', PStr ''missing.txt'')],
      [(''type'', PStr ''run_command''),
       (''command'', PStr ''python engine/backtest.py strategies/example_ma_crossover.py'')],
      [(''type'', PStr ''list_dir''), (''path'', PStr ''.'')]]
     demo_world
   = Inl (TypeError (''run_command() got an unexpected keyword argument ''
                     @ [squote] @ ''cwd'' @ [squote]),
          demo_world\<lparr>trace := [CallOpenRead (PStr ''missing.txt'')]\<rparr>)"
  by (simp add: execute_actions_def dispatch_def dict_get_def handle_run_command_def dict_get_default_def
      py_strip_def is_space_def demo_env_def allowed_prefixes_def call_run_command_def
      handle_read_file_def open_read_def log_call_def demo_world_def demo_host_def)


text \<open>
  C7 (the code departs from the claim). A \<^verbatim>\<open>write_file\<close> action with a non-empty path
  should create the directories needed and write the file. For a path without a directory
  part, \<^verbatim>\<open>os.path.dirname\<close> is the empty string and \<^verbatim>\<open>os.makedirs('', exist_ok=True)\<close>
  raises on every host: the action is answered with an error result, \<^verbatim>\<open>open\<close> is never
  called and the file is not written.
\<close>

theorem write_file_bare_name_fails:
  "dispatch demo_env
     [(''type'', PStr ''write_file''), (''path'', PStr ''README.md''), (''content'', PStr ''hello'')]
     demo_world
   = Inr ([(''type'', PStr ''write_file''), (''path'', PStr ''README.md''),
           (''error'', PStr (''[Errno 2] No such file or directory: '' @ [squote, squote]))],
          demo_world\<lparr>trace := [CallMakedirs []]\<rparr>)
   \<and> files (host (demo_world\<lparr>trace := [CallMakedirs []]\<rparr>)) ''README.md'' = None"
  by (simp add: dispatch_def dict_get_def handle_write_file_def posix_dirname_def os_makedirs_def
      write_file_error_def no_such_file_def str_repr_def log_call_def demo_world_def demo_host_def)

text \<open>
  C1, as the code has it. Take a mutation attempt on the protected file: the guard is called
  with a path object that resolves to the protected file, the file exists and its content has
  no carriage return, and the four filesystem calls before the checks return. If the compile
  check returns its output with a nonzero exit code, or passes and the smoke test returns its
  output with a nonzero exit code, and the restoring write returns, then the guard returns;
  the protected file holds exactly the content it had before the call; the result has status
  \<^verbatim>\<open>reverted\<close>, stage \<^verbatim>\<open>compile\<close> or \<^verbatim>\<open>smoke_test\<close> respectively, and carries
  the backup path; and the backup file holds the content from before the call, provided the
  check commands that ran left the backup file as they found it.
\<close>

theorem failed_check_restores_protected_file:
  assumes "os_realpath E p (host w) = os_realpath E (engine_file E) (host w)"
    and "files (host w) (engine_file E) = Some original"
    and "CHR 0x0D \<notin> set original"
    and "setup_returns E original (host w)"
  shows
    "(raised (fst (compile_run E original proposed (host w))) = None
      \<and> returncode (fst (compile_run E original proposed (host w))) \<noteq> 0
      \<and> os_fault E (CallWriteText (engine_file E))
           (snd (compile_run E original proposed (host w))) = None
      \<longrightarrow>
        (case safe_modify_engine_backtest E (PPath p) (PStr proposed) w of
           Inl x \<Rightarrow> False
         | Inr (res, w') \<Rightarrow>
             files (host w') (engine_file E) = Some original
           \<and> dict_get res ''status'' = PStr ''reverted''
           \<and> dict_get res ''stage'' = PStr ''compile''
           \<and> dict_get res ''backup_path'' = PStr (backup_file E (strftime_stamp (now (host w))))
           \<and> (run_keeps E compile_cmd (written_host E original proposed (host w))
                  (backup_file E (strftime_stamp (now (host w))))
                \<longrightarrow> files (host w') (backup_file E (strftime_stamp (now (host w))))
                      = Some original)))
     \<and> (raised (fst (compile_run E original proposed (host w))) = None
      \<and> returncode (fst (compile_run E original proposed (host w))) = 0
      \<and> raised (fst (smoke_run E original proposed (host w))) = None
      \<and> returncode (fst (smoke_run E original proposed (host w))) \<noteq> 0
      \<and> os_fault E (CallWriteText (engine_file E))
           (snd (smoke_run E original proposed (host w))) = None
      \<longrightarrow>
        (case safe_modify_engine_backtest E (PPath p) (PStr proposed) w of
           Inl x \<Rightarrow> False
         | Inr (res, w') \<Rightarrow>
             files (host w') (engine_file E) = Some original
           \<and> dict_get res ''status'' = PStr ''reverted''
           \<and> dict_get res ''stage'' = PStr ''smoke_test''
           \<and> dict_get res ''backup_path'' = PStr (backup_file E (strftime_stamp (now (host w))))
           \<and> (run_keeps E compile_cmd (written_host E original proposed (host w))
                  (backup_file E (strftime_stamp (now (host w))))
                \<and> run_keeps E smoke_cmd (snd (compile_run E original proposed (host w)))
                  (backup_file E (strftime_stamp (now (host w))))
                \<longrightarrow> files (host w') (backup_file E (strftime_stamp (now (host w))))
                      = Some original)))"
proof -
  have t: "universal_newlines original = original"
    using assms(3) by (rule universal_newlines_without_cr)
  have s: "setup_returns E (universal_newlines original) (host w)"
    using assms(4) t by simp
  note run = guard_run [OF assms(1) assms(2) s, of proposed, unfolded t]
  have b: "backup_file E (strftime_stamp (now (host w))) \<noteq> engine_file E"
    by (rule backup_is_not_engine_file)
  show ?thesis
    using b
    by (simp add: run dict_get_def run_keeps_def compile_run_def smoke_run_def written_host_def)
qed

theorem failed_check_restores_protected_file_witness:
  "os_realpath demo_env ''/repo/engine/backtest.py'' (host demo_world)
       = os_realpath demo_env (engine_file demo_env) (host demo_world)
   \<and> files (host demo_world) (engine_file demo_env) = Some ''def f(): return 1''
   \<and> CHR 0x0D \<notin> set ''def f(): return 1''
   \<and> setup_returns demo_env ''def f(): return 1'' (host demo_world)
   \<and> fst (compile_run demo_env ''def f(): return 1'' ''x = = 1'' (host demo_world))
       = \<lparr>stdout = [], stderr = syntax_error_report, returncode = 1, raised = None\<rparr>
   \<and> (case safe_modify_engine_backtest demo_env (PPath ''/repo/engine/backtest.py'')
              (PStr ''x = = 1'') demo_world of
         Inl x \<Rightarrow> False
       | Inr (res, w') \<Rightarrow>
           files (host w') ''/repo/engine/backtest.py'' = Some ''def f(): return 1''
         \<and> dict_get res ''status'' = PStr ''reverted''
         \<and> dict_get res ''stage'' = PStr ''compile''
         \<and> dict_get res ''backup_path'' = PStr ''/repo/engine/backtest_backup_20240309_140500.py''
         \<and> files (host w') ''/repo/engine/backtest_backup_20240309_140500.py''
             = Some ''def f(): return 1'')
   \<and> fst (compile_run demo_env ''def f(): return 1'' ''raise SystemExit(1)'' (host demo_world))
       = \<lparr>stdout = [], stderr = [], returncode = 0, raised = None\<rparr>
   \<and> fst (smoke_run demo_env ''def f(): return 1'' ''raise SystemExit(1)'' (host demo_world))
       = \<lparr>stdout = [], stderr = [], returncode = 1, raised = None\<rparr>
   \<and> (case safe_modify_engine_backtest demo_env (PPath ''/repo/engine/backtest.py'')
              (PStr ''raise SystemExit(1)'') demo_world of
         Inl x \<Rightarrow> False
       | Inr (res, w') \<Rightarrow>
           files (host w') ''/repo/engine/backtest.py'' = Some ''def f(): return 1''
         \<and> dict_get res ''status'' = PStr ''reverted''
         \<and> dict_get res ''stage'' = PStr ''smoke_test''
         \<and> dict_get res ''backup_path'' = PStr ''/repo/engine/backtest_backup_20240309_140500.py''
         \<and> files (host w') ''/repo/engine/backtest_backup_20240309_140500.py''
             = Some ''def f(): return 1'')"
proof -
  have h1: "os_realpath demo_env ''/repo/engine/backtest.py'' (host demo_world)
              = os_realpath demo_env (engine_file demo_env) (host demo_world)"
    by (simp add: demo_realpath demo_engine_file)
  have h2: "files (host demo_world) (engine_file demo_env) = Some ''def f(): return 1''"
    by (simp add: demo_host_of_world demo_engine_file demo_protected_content)
  have h3: "CHR 0x0D \<notin> set ''def f(): return 1''"
    by simp
  have h4: "setup_returns demo_env ''def f(): return 1'' (host demo_world)"
    by (rule demo_setup_returns)
  have c1: "fst (compile_run demo_env ''def f(): return 1'' ''x = = 1'' (host demo_world))
       = \<lparr>stdout = [], stderr = syntax_error_report, returncode = 1, raised = None\<rparr>"
    by (simp add: demo_host_of_world demo_compile_rejects)
  have c2: "fst (compile_run demo_env ''def f(): return 1'' ''raise SystemExit(1)'' (host demo_world))
       = \<lparr>stdout = [], stderr = [], returncode = 0, raised = None\<rparr>"
    by (simp add: demo_host_of_world demo_compile_accepts)
  have s2: "fst (smoke_run demo_env ''def f(): return 1'' ''raise SystemExit(1)'' (host demo_world))
       = \<lparr>stdout = [], stderr = [], returncode = 1, raised = None\<rparr>"
    by (simp add: demo_host_of_world demo_smoke_rejects)
  have first: "case safe_modify_engine_backtest demo_env (PPath ''/repo/engine/backtest.py'')
              (PStr ''x = = 1'') demo_world of
         Inl x \<Rightarrow> False
       | Inr (res, w') \<Rightarrow>
           files (host w') ''/repo/engine/backtest.py'' = Some ''def f(): return 1''
         \<and> dict_get res ''status'' = PStr ''reverted''
         \<and> dict_get res ''stage'' = PStr ''compile''
         \<and> dict_get res ''backup_path'' = PStr ''/repo/engine/backtest_backup_20240309_140500.py''
         \<and> files (host w') ''/repo/engine/backtest_backup_20240309_140500.py''
             = Some ''def f(): return 1''"
    using failed_check_restores_protected_file [OF h1 h2 h3 h4, of "''x = = 1''"]
      c1 demo_run_keeps_backup_compile
    by (auto simp add: demo_engine_file demo_backup_file demo_host_of_world demo_no_fault
        split: sum.splits)
  have second: "case safe_modify_engine_backtest demo_env (PPath ''/repo/engine/backtest.py'')
              (PStr ''raise SystemExit(1)'') demo_world of
         Inl x \<Rightarrow> False
       | Inr (res, w') \<Rightarrow>
           files (host w') ''/repo/engine/backtest.py'' = Some ''def f(): return 1''
         \<and> dict_get res ''status'' = PStr ''reverted''
         \<and> dict_get res ''stage'' = PStr ''smoke_test''
         \<and> dict_get res ''backup_path'' = PStr ''/repo/engine/backtest_backup_20240309_140500.py''
         \<and> files (host w') ''/repo/engine/backtest_backup_20240309_140500.py''
             = Some ''def f(): return 1''"
    using failed_check_restores_protected_file [OF h1 h2 h3 h4, of "''raise SystemExit(1)''"]
      c2 s2 demo_run_keeps_backup_compile demo_run_keeps_smoke
    by (auto simp add: demo_engine_file demo_backup_file demo_host_of_world demo_no_fault
        split: sum.splits)
  show ?thesis
    using h1 h2 h3 h4 c1 c2 s2 first second by blast
qed

text \<open>
  C1 as stated promises the rollback for every attempt whose check exits nonzero. Three
  attempts where it fails. The protected file is stored with CRLF line endings: the guard
  reads it in text mode, so what it writes back, and what the backup holds, has LF endings.
  The proposed content compiles, and run by the smoke test it prints a byte that is not valid
  text and exits 1: \<^verbatim>\<open>subprocess.run\<close> raises, the exception leaves the guard, there is no
  result and the content whose check failed stays in the protected file. The proposed content
  compiles, and run by the smoke test it deletes the backup and exits 1: the result is
  \<^verbatim>\<open>reverted\<close> and carries a backup path at which no file exists.
\<close>

theorem failed_check_rollback_counterexamples:
  "(case safe_modify_engine_backtest demo_env (PPath ''/repo/engine/backtest.py'')
            (PStr ''x = = 1'') crlf_world of
       Inl x \<Rightarrow> False
     | Inr (res, w') \<Rightarrow>
         dict_get res ''status'' = PStr ''reverted''
       \<and> dict_get res ''stage'' = PStr ''compile''
       \<and> files (host crlf_world) ''/repo/engine/backtest.py''
           = Some (''def f(): return 1'' @ [CHR 0x0D, CHR 0x0A])
       \<and> files (host w') ''/repo/engine/backtest.py'' = Some (''def f(): return 1'' @ [CHR 0x0A])
       \<and> files (host w') ''/repo/engine/backtest_backup_20240309_140500.py''
           = Some (''def f(): return 1'' @ [CHR 0x0A]))
   \<and> returncode (fst (compile_run (demo_env\<lparr>os_shell := script_shell\<rparr>) ''def f(): return 1''
        noisy_failing_script demo_host)) = 0
   \<and> returncode (fst (smoke_run (demo_env\<lparr>os_shell := script_shell\<rparr>) ''def f(): return 1''
        noisy_failing_script demo_host)) = 1
   \<and> (case safe_modify_engine_backtest (demo_env\<lparr>os_shell := script_shell\<rparr>)
            (PPath ''/repo/engine/backtest.py'') (PStr noisy_failing_script) demo_world of
       Inl (e, w') \<Rightarrow>
         e = undecodable_output
       \<and> files (host demo_world) ''/repo/engine/backtest.py'' = Some ''def f(): return 1''
       \<and> files (host w') ''/repo/engine/backtest.py'' = Some noisy_failing_script
     | Inr r \<Rightarrow> False)
   \<and> (case safe_modify_engine_backtest (demo_env\<lparr>os_shell := script_shell\<rparr>)
            (PPath ''/repo/engine/backtest.py'') (PStr backup_wiping_script) demo_world of
       Inl x \<Rightarrow> False
     | Inr (res, w') \<Rightarrow>
         dict_get res ''status'' = PStr ''reverted''
       \<and> dict_get res ''stage'' = PStr ''smoke_test''
       \<and> dict_get res ''backup_path'' = PStr ''/repo/engine/backtest_backup_20240309_140500.py''
       \<and> files (host w') ''/repo/engine/backtest_backup_20240309_140500.py'' = None)"
proof -
  have codes: "returncode (fst (compile_run (demo_env\<lparr>os_shell := script_shell\<rparr>)
        ''def f(): return 1'' noisy_failing_script demo_host)) = 0"
    "returncode (fst (smoke_run (demo_env\<lparr>os_shell := script_shell\<rparr>) ''def f(): return 1''
        noisy_failing_script demo_host)) = 1"
    by (simp_all add: noisy_failing_checks)
  show ?thesis
    using crlf_restored_as_lf codes undecodable_output_of_failing_check wiped_backup_is_gone
    by blast
qed

text \<open>
  C3, as the code has it. Take a mutation attempt as in C1 (carriage returns in the protected
  file allowed) in which the four filesystem calls before the checks return and both check
  commands return their output with exit code zero. Then the guard returns the result with
  status \<^verbatim>\<open>ok\<close>, the backup path and both check outputs, and it writes nothing after the
  checks: the host is as the smoke test left it. So the protected file holds the proposed
  content provided neither check command rewrote it.
\<close>

theorem passing_checks_commit_proposed_content:
  assumes "os_realpath E p (host w) = os_realpath E (engine_file E) (host w)"
    and "files (host w) (engine_file E) = Some original"
    and "setup_returns E (universal_newlines original) (host w)"
    and "raised (fst (compile_run E (universal_newlines original) proposed (host w))) = None"
    and "returncode (fst (compile_run E (universal_newlines original) proposed (host w))) = 0"
    and "raised (fst (smoke_run E (universal_newlines original) proposed (host w))) = None"
    and "returncode (fst (smoke_run E (universal_newlines original) proposed (host w))) = 0"
  shows "case safe_modify_engine_backtest E (PPath p) (PStr proposed) w of
           Inl x \<Rightarrow> False
         | Inr (res, w') \<Rightarrow>
             res = [(''type'', PStr ''write_file''), (''path'', PStr (engine_file E)),
                    (''status'', PStr ''ok''),
                    (''backup_path'', PStr (backup_file E (strftime_stamp (now (host w))))),
                    (''compile_result'', PDict (proc_dict
                       (fst (compile_run E (universal_newlines original) proposed (host w))))),
                    (''smoke_result'', PDict (proc_dict
                       (fst (smoke_run E (universal_newlines original) proposed (host w)))))]
           \<and> host w' = snd (smoke_run E (universal_newlines original) proposed (host w))
           \<and> (run_keeps E compile_cmd
                  (written_host E (universal_newlines original) proposed (host w)) (engine_file E)
                \<and> run_keeps E smoke_cmd
                  (snd (compile_run E (universal_newlines original) proposed (host w)))
                  (engine_file E)
                \<longrightarrow> files (host w') (engine_file E) = Some proposed)"
  using assms(4-7)
  by (simp add: guard_run [OF assms(1-3)] run_keeps_def compile_run_def smoke_run_def
      written_host_def)

theorem passing_checks_commit_proposed_content_witness:
  "os_realpath demo_env ''/repo/engine/backtest.py'' (host demo_world)
       = os_realpath demo_env (engine_file demo_env) (host demo_world)
   \<and> files (host demo_world) (engine_file demo_env) = Some ''def f(): return 1''
   \<and> setup_returns demo_env (universal_newlines ''def f(): return 1'') (host demo_world)
   \<and> fst (compile_run demo_env (universal_newlines ''def f(): return 1'') ''def f(): return 2''
            (host demo_world))
       = \<lparr>stdout = [], stderr = [], returncode = 0, raised = None\<rparr>
   \<and> fst (smoke_run demo_env (universal_newlines ''def f(): return 1'') ''def f(): return 2''
            (host demo_world))
       = \<lparr>stdout = [], stderr = [], returncode = 0, raised = None\<rparr>
   \<and> (case safe_modify_engine_backtest demo_env (PPath ''/repo/engine/backtest.py'')
              (PStr ''def f(): return 2'') demo_world of
         Inl x \<Rightarrow> False
       | Inr (res, w') \<Rightarrow>
           res = [(''type'', PStr ''write_file''), (''path'', PStr ''/repo/engine/backtest.py''),
                  (''status'', PStr ''ok''),
                  (''backup_path'', PStr ''/repo/engine/backtest_backup_20240309_140500.py''),
                  (''compile_result'',
                     PDict [(''stdout'', PStr []), (''stderr'', PStr []), (''returncode'', PInt 0)]),
                  (''smoke_result'',
                     PDict [(''stdout'', PStr []), (''stderr'', PStr []), (''returncode'', PInt 0)])]
         \<and> files (host w') ''/repo/engine/backtest.py'' = Some ''def f(): return 2'')"
proof -
  have h1: "os_realpath demo_env ''/repo/engine/backtest.py'' (host demo_world)
              = os_realpath demo_env (engine_file demo_env) (host demo_world)"
    by (simp add: demo_realpath demo_engine_file)
  have h2: "files (host demo_world) (engine_file demo_env) = Some ''def f(): return 1''"
    by (simp add: demo_host_of_world demo_engine_file demo_protected_content)
  have h3: "setup_returns demo_env (universal_newlines ''def f(): return 1'') (host demo_world)"
    by (rule demo_setup_returns)
  have c: "fst (compile_run demo_env (universal_newlines ''def f(): return 1'') ''def f(): return 2''
            (host demo_world))
       = \<lparr>stdout = [], stderr = [], returncode = 0, raised = None\<rparr>"
    by (simp add: demo_host_of_world demo_compile_accepts)
  have s: "fst (smoke_run demo_env (universal_newlines ''def f(): return 1'') ''def f(): return 2''
            (host demo_world))
       = \<lparr>stdout = [], stderr = [], returncode = 0, raised = None\<rparr>"
    by (simp add: demo_host_of_world demo_smoke_accepts)
  have h4: "raised (fst (compile_run demo_env (universal_newlines ''def f(): return 1'')
              ''def f(): return 2'' (host demo_world))) = None"
    and h5: "returncode (fst (compile_run demo_env (universal_newlines ''def f(): return 1'')
              ''def f(): return 2'' (host demo_world))) = 0"
    using c by simp_all
  have h6: "raised (fst (smoke_run demo_env (universal_newlines ''def f(): return 1'')
              ''def f(): return 2'' (host demo_world))) = None"
    and h7: "returncode (fst (smoke_run demo_env (universal_newlines ''def f(): return 1'')
              ''def f(): return 2'' (host demo_world))) = 0"
    using s by simp_all
  have out: "case safe_modify_engine_backtest demo_env (PPath ''/repo/engine/backtest.py'')
              (PStr ''def f(): return 2'') demo_world of
         Inl x \<Rightarrow> False
       | Inr (res, w') \<Rightarrow>
           res = [(''type'', PStr ''write_file''), (''path'', PStr ''/repo/engine/backtest.py''),
                  (''status'', PStr ''ok''),
                  (''backup_path'', PStr ''/repo/engine/backtest_backup_20240309_140500.py''),
                  (''compile_result'',
                     PDict [(''stdout'', PStr []), (''stderr'', PStr []), (''returncode'', PInt 0)]),
                  (''smoke_result'',
                     PDict [(''stdout'', PStr []), (''stderr'', PStr []), (''returncode'', PInt 0)])]
         \<and> files (host w') ''/repo/engine/backtest.py'' = Some ''def f(): return 2''"
    using passing_checks_commit_proposed_content [OF h1 h2 h3 h4 h5 h6 h7]
      c s demo_run_keeps_engine_compile demo_run_keeps_smoke
    by (auto simp add: demo_engine_file demo_backup_file demo_host_of_world proc_dict_def
        split: sum.splits)
  show ?thesis
    using h1 h2 h3 c s out by blast
qed

text \<open>
  C3 as stated promises the proposed content and an \<^verbatim>\<open>ok\<close> result whenever both checks
  exit zero. Two attempts where it fails. The smoke test runs the proposed content, and this
  one deletes the file it is run from and exits 0: the result is \<^verbatim>\<open>ok\<close> and the protected
  file is gone. The proposed content compiles, and run by the smoke test it prints a byte that
  is not valid text and exits 0: \<^verbatim>\<open>subprocess.run\<close> raises and the guard returns no result.
\<close>

theorem passing_checks_counterexamples:
  "(case safe_modify_engine_backtest (demo_env\<lparr>os_shell := script_shell\<rparr>)
            (PPath ''/repo/engine/backtest.py'') (PStr self_removing_script) demo_world of
       Inl x \<Rightarrow> False
     | Inr (res, w') \<Rightarrow>
         dict_get res ''status'' = PStr ''ok''
       \<and> dict_get res ''compile_result''
           = PDict [(''stdout'', PStr []), (''stderr'', PStr []), (''returncode'', PInt 0)]
       \<and> dict_get res ''smoke_result''
           = PDict [(''stdout'', PStr []), (''stderr'', PStr []), (''returncode'', PInt 0)]
       \<and> files (host w') ''/repo/engine/backtest.py'' = None)
   \<and> returncode (fst (compile_run (demo_env\<lparr>os_shell := script_shell\<rparr>) ''def f(): return 1''
        noisy_script demo_host)) = 0
   \<and> returncode (fst (smoke_run (demo_env\<lparr>os_shell := script_shell\<rparr>) ''def f(): return 1''
        noisy_script demo_host)) = 0
   \<and> (case safe_modify_engine_backtest (demo_env\<lparr>os_shell := script_shell\<rparr>)
            (PPath ''/repo/engine/backtest.py'') (PStr noisy_script) demo_world of
       Inl (e, w') \<Rightarrow> e = undecodable_output
     | Inr r \<Rightarrow> False)"
proof -
  have codes: "returncode (fst (compile_run (demo_env\<lparr>os_shell := script_shell\<rparr>)
        ''def f(): return 1'' noisy_script demo_host)) = 0"
    "returncode (fst (smoke_run (demo_env\<lparr>os_shell := script_shell\<rparr>) ''def f(): return 1''
        noisy_script demo_host)) = 0"
    by (simp_all add: noisy_checks)
  show ?thesis
    using removed_file_is_committed codes undecodable_output_of_passing_check
    by blast
qed

text \<open>
  C4, as the code has it. A refused mutation is answered with status \<^verbatim>\<open>blocked\<close> and a
  message, and nothing is changed: the host is as before, no file content is read, no backup
  is written and no subprocess is run. With the capability flag disabled the dispatcher
  returns at once and makes no call at all (its message is under the key \<^verbatim>\<open>reason\<close>). The
  guard, called with a path object, makes the read-only calls its validation consists of: it
  resolves the requested and the protected path and compares them, and only when they agree
  asks whether the protected file exists.
\<close>

theorem refused_mutation_is_blocked:
  "(dict_get action ''type'' = PStr ''modify_engine'' \<and> \<not> allow_modify_engine E \<longrightarrow>
      dispatch E action w =
        Inr ([(''type'', PStr ''modify_engine''), (''status'', PStr ''blocked''),
              (''reason'', PStr ''ALLOW_MODIFY_ENGINE=False no driver.py'')], w))
   \<and> (os_realpath E p (host w) \<noteq> os_realpath E (engine_file E) (host w) \<longrightarrow>
      safe_modify_engine_backtest E (PPath p) content w =
        Inr ([(''type'', PStr ''write_file''), (''path'', PStr p),
              (''status'', PStr ''blocked''), (''error'', PStr msg_not_engine_file)],
             w\<lparr>trace := trace w @ [CallResolve p, CallResolve (engine_file E)]\<rparr>))
   \<and> (os_realpath E p (host w) = os_realpath E (engine_file E) (host w)
      \<and> files (host w) (engine_file E) = None
      \<and> os_fault E (CallExists (engine_file E)) (host w) = None \<longrightarrow>
      safe_modify_engine_backtest E (PPath p) content w =
        Inr ([(''type'', PStr ''write_file''), (''path'', PStr (engine_file E)),
              (''status'', PStr ''blocked''), (''error'', PStr msg_engine_missing)],
             w\<lparr>trace := trace w @ [CallResolve p, CallResolve (engine_file E),
                                   CallExists (engine_file E)]\<rparr>))"
  by (simp add: dispatch_modify_engine handle_modify_engine_def safe_modify_engine_backtest_def
      py_resolve_def path_resolve_def path_exists_def log_call_def py_str_def)

theorem refused_mutation_is_blocked_witness:
  "dict_get [(''type'', PStr ''modify_engine''), (''path'', PStr ''engine/backtest.py'')] ''type''
       = PStr ''modify_engine''
   \<and> \<not> allow_modify_engine (demo_env\<lparr>allow_modify_engine := False\<rparr>)
   \<and> dispatch (demo_env\<lparr>allow_modify_engine := False\<rparr>)
        [(''type'', PStr ''modify_engine''), (''path'', PStr ''engine/backtest.py'')] demo_world =
       Inr ([(''type'', PStr ''modify_engine''), (''status'', PStr ''blocked''),
             (''reason'', PStr ''ALLOW_MODIFY_ENGINE=False no driver.py'')], demo_world)
   \<and> os_realpath demo_env ''/repo/README.md'' (host demo_world)
       \<noteq> os_realpath demo_env (engine_file demo_env) (host demo_world)
   \<and> safe_modify_engine_backtest demo_env (PPath ''/repo/README.md'') (PStr ''x'') demo_world =
       Inr ([(''type'', PStr ''write_file''), (''path'', PStr ''/repo/README.md''),
             (''status'', PStr ''blocked''), (''error'', PStr msg_not_engine_file)],
            demo_world\<lparr>trace := [CallResolve ''/repo/README.md'',
                                  CallResolve ''/repo/engine/backtest.py'']\<rparr>)
   \<and> files (host bare_world) (engine_file demo_env) = None
   \<and> os_fault demo_env (CallExists (engine_file demo_env)) (host bare_world) = None
   \<and> safe_modify_engine_backtest demo_env (PPath ''/repo/engine/backtest.py'') (PStr ''x'') bare_world =
       Inr ([(''type'', PStr ''write_file''), (''path'', PStr ''/repo/engine/backtest.py''),
             (''status'', PStr ''blocked''), (''error'', PStr msg_engine_missing)],
            bare_world\<lparr>trace := [CallResolve ''/repo/engine/backtest.py'',
                                  CallResolve ''/repo/engine/backtest.py'',
                                  CallExists ''/repo/engine/backtest.py'']\<rparr>)"
  using refused_mutation_is_blocked
      [of "[(''type'', PStr ''modify_engine''), (''path'', PStr ''engine/backtest.py'')]"
          "demo_env\<lparr>allow_modify_engine := False\<rparr>" demo_world]
    refused_mutation_is_blocked [of _ demo_env demo_world "''/repo/README.md''" "PStr ''x''"]
    refused_mutation_is_blocked [of _ demo_env bare_world "''/repo/engine/backtest.py''" "PStr ''x''"]
  by (simp add: dict_get_def demo_engine_file demo_realpath)
     (simp add: demo_env_def demo_world_def bare_world_def)

text \<open>
  C4 as stated says that a refusal performs no filesystem access. Refusing because the
  protected file does not exist takes an existence test: on the example project without the
  protected file the guard answers \<^verbatim>\<open>blocked\<close> after three filesystem calls, starting
  from an empty trace.
\<close>

theorem blocked_for_missing_file_queries_filesystem:
  "safe_modify_engine_backtest demo_env (PPath ''/repo/engine/backtest.py'')
       (PStr ''def f(): return 2'') bare_world =
     Inr ([(''type'', PStr ''write_file''), (''path'', PStr ''/repo/engine/backtest.py''),
           (''status'', PStr ''blocked''), (''error'', PStr msg_engine_missing)],
          bare_world\<lparr>trace := [CallResolve ''/repo/engine/backtest.py'',
                                CallResolve ''/repo/engine/backtest.py'',
                                CallExists ''/repo/engine/backtest.py'']\<rparr>)
   \<and> trace bare_world = []"
  by (simp add: safe_modify_engine_backtest_def py_resolve_def path_resolve_def path_exists_def
      log_call_def engine_file_def path_join_def bare_world_def demo_env_def demo_host_def)

end
